theory Spec2Isabelle
  imports Main "HOL-Library.AList"
begin

section \<open>Storage backends\<close>

text \<open>
  The cache manager of \<^verbatim>\<open>ApiNodeMongo/server.js\<close> (class \<^verbatim>\<open>BrowserCacheManager\<close>)
  reads and writes string values under string keys in several storage objects:
  \<^verbatim>\<open>browserStorage\<close>, \<^verbatim>\<open>temporaryCacheStorage\<close>, \<^verbatim>\<open>internalStorage\<close> and
  \<^verbatim>\<open>cookieStorage\<close>. The storage classes themselves are imported, so their contract is
  taken from section 4.1 of the specification: \<^verbatim>\<open>get\<close>, \<^verbatim>\<open>set\<close>, \<^verbatim>\<open>remove\<close>,
  \<^verbatim>\<open>keys\<close>, \<^verbatim>\<open>clear\<close>, where reading an absent key gives an absent marker.

  Two storage objects built for the same window medium share their content: a manager whose
  persistent and temporary locations are both the per-tab medium reads in one what it wrote
  through the other. The state is therefore one association list per physical medium, and
  a storage object is the name of the medium it works on.
\<close>

type_synonym storage = "(string \<times> string) list"

datatype medium =
    LocalM             \<comment> \<open>durable-cross-session medium of the window\<close>
  | SessionM           \<comment> \<open>durable-per-tab medium of the window\<close>
  | BrowserMemoryM     \<comment> \<open>the \<^verbatim>\<open>MemoryStorage\<close> created for \<^verbatim>\<open>browserStorage\<close>\<close>
  | TemporaryMemoryM   \<comment> \<open>the \<^verbatim>\<open>MemoryStorage\<close> created for \<^verbatim>\<open>temporaryCacheStorage\<close>\<close>
  | InternalM          \<comment> \<open>\<^verbatim>\<open>internalStorage\<close>\<close>
  | CookieM            \<comment> \<open>the cookie jar behind \<^verbatim>\<open>cookieStorage\<close>\<close>

type_synonym media = "medium \<Rightarrow> storage"

text \<open>Modelled from the spec: the storage contract of section 4.1 (the storage classes
  \<^verbatim>\<open>LocalStorage\<close>, \<^verbatim>\<open>SessionStorage\<close>, \<^verbatim>\<open>MemoryStorage\<close> and \<^verbatim>\<open>CookieStorage\<close> are imported
  by the source). \<^verbatim>\<open>getUserData\<close> and \<^verbatim>\<open>setUserData\<close> are the same read and write.\<close>

definition storage_getItem :: "medium \<Rightarrow> media \<Rightarrow> string \<Rightarrow> string option" where
  "storage_getItem m s key = map_of (s m) key"

definition storage_setItem :: "medium \<Rightarrow> string \<Rightarrow> string \<Rightarrow> media \<Rightarrow> media" where
  "storage_setItem m key v s = s(m := AList.update key v (s m))"

definition storage_removeItem :: "medium \<Rightarrow> string \<Rightarrow> media \<Rightarrow> media" where
  "storage_removeItem m key s = s(m := AList.delete key (s m))"

definition storage_getKeys :: "medium \<Rightarrow> media \<Rightarrow> string list" where
  "storage_getKeys m s = map fst (s m)"

definition storage_clear :: "medium \<Rightarrow> media \<Rightarrow> media" where
  "storage_clear m s = s(m := [])"

definition storage_getUserData :: "medium \<Rightarrow> media \<Rightarrow> string \<Rightarrow> string option" where
  "storage_getUserData m s key = storage_getItem m s key"

definition storage_setUserData :: "medium \<Rightarrow> string \<Rightarrow> string \<Rightarrow> media \<Rightarrow> media" where
  "storage_setUserData m key v s = storage_setItem m key v s"

text \<open>The source tests what it read with \<^verbatim>\<open>if (!value)\<close>: an absent value and the
  empty string both count as "nothing there".\<close>

definition truthy :: "string option \<Rightarrow> bool" where
  "truthy v = (case v of None \<Rightarrow> False | Some x \<Rightarrow> x \<noteq> [])"

section \<open>Strings and arrays\<close>

text \<open>\<^verbatim>\<open>StringUtils.startsWith(str, search)\<close>, and \<^verbatim>\<open>str.indexOf(search)\<close> on strings:
  the position of the first occurrence, or \<open>-1\<close>.\<close>

fun startsWith :: "string \<Rightarrow> string \<Rightarrow> bool" where
  "startsWith str [] = True"
| "startsWith [] (c # search) = False"
| "startsWith (d # str) (c # search) = (d = c \<and> startsWith str search)"

fun indexOf :: "string \<Rightarrow> string \<Rightarrow> int" where
  "indexOf [] search = (if search = [] then 0 else -1)"
| "indexOf (d # str) search =
     (if startsWith (d # str) search then 0
      else (let i = indexOf str search in if i = -1 then -1 else i + 1))"

text \<open>\<^verbatim>\<open>array.indexOf(x)\<close> and \<^verbatim>\<open>array.splice(i, 1)\<close> on arrays.\<close>

fun Array_indexOf :: "'a list \<Rightarrow> 'a \<Rightarrow> int" where
  "Array_indexOf [] x = -1"
| "Array_indexOf (y # ys) x =
     (if y = x then 0
      else (let i = Array_indexOf ys x in if i = -1 then -1 else i + 1))"

definition splice1 :: "int \<Rightarrow> 'a list \<Rightarrow> 'a list" where
  "splice1 i xs = take (nat i) xs @ drop (nat i + 1) xs"

section \<open>JSON values and errors\<close>

datatype json =
    JNull
  | JBool bool
  | JNum int
  | JStr string
  | JArr "json list"
  | JObj "(string \<times> json) list"

text \<open>\<^verbatim>\<open>parsedJson && typeof parsedJson === "object"\<close>: arrays and objects pass, \<^verbatim>\<open>null\<close>
  and the primitive values do not.\<close>

fun isObject :: "json \<Rightarrow> bool" where
  "isObject (JArr xs) = True"
| "isObject (JObj fs) = True"
| "isObject j = False"

datatype BrowserAuthErrorCodes =
    interactionInProgress
  | noTokenRequestCacheError
  | unableToParseTokenRequestCacheError
  | noCachedAuthorityError

datatype ClientAuthErrorCodes = unexpectedCredentialType | invalidState

datatype error =
    BrowserAuthError BrowserAuthErrorCodes
  | ClientAuthError ClientAuthErrorCodes
  | TypeError

datatype BrowserCacheLocation = LocalStorage | SessionStorage | MemoryStorage

datatype CredentialType =
    ID_TOKEN | ACCESS_TOKEN | ACCESS_TOKEN_WITH_AUTH_SCHEME | REFRESH_TOKEN

type_synonym InteractionType = string

section \<open>The manager: constants, host functions, configuration\<close>

text \<open>
  The key constants (\<^verbatim>\<open>Constants\<close>, \<^verbatim>\<open>StaticCacheKeys\<close>, \<^verbatim>\<open>TemporaryCacheKeys\<close>), the JSON
  and base64 functions of the host, the state-blob parsers and the entity shape checks
  are imported by the source. They are parameters of the model: every theorem holds for
  whatever they are, under the hypotheses it states.
\<close>

record cache_keys =
  CACHE_PREFIX :: string
  ACCOUNT_KEYS :: string
  TOKEN_KEYS :: string
  AUTHORITY :: string
  NONCE_IDTOKEN :: string
  REQUEST_STATE :: string
  REQUEST_PARAMS :: string
  ORIGIN_URI :: string
  URL_HASH :: string
  CORRELATION_ID :: string
  CCS_CREDENTIAL :: string
  NATIVE_REQUEST :: string
  INTERACTION_STATUS_KEY :: string
  HOME_ACCOUNT_ID :: string     \<comment> \<open>\<^verbatim>\<open>CcsCredentialType.HOME_ACCOUNT_ID\<close>\<close>
  UPN :: string                 \<comment> \<open>\<^verbatim>\<open>CcsCredentialType.UPN\<close>\<close>

record host = cache_keys +
  JSON_parse :: "string \<Rightarrow> json option"          \<comment> \<open>\<open>None\<close>: \<^verbatim>\<open>JSON.parse\<close> throws\<close>
  JSON_stringify :: "json \<Rightarrow> string"
  base64Decode :: "string \<Rightarrow> string option"      \<comment> \<open>\<open>None\<close>: it throws\<close>
  parseRequestState :: "string \<Rightarrow> error + string"
    \<comment> \<open>\<^verbatim>\<open>ProtocolUtils.parseRequestState(cryptoImpl, s).libraryState.id\<close>, or what it throws\<close>
  extractBrowserRequestState :: "string \<Rightarrow> error + InteractionType option"
    \<comment> \<open>the \<^verbatim>\<open>interactionType\<close> of the parsed state, \<open>None\<close> for \<^verbatim>\<open>null\<close>, or what it throws\<close>
  isAccountEntity :: "json \<Rightarrow> bool"
  isIdTokenEntity :: "json \<Rightarrow> bool"
  isAccessTokenEntity :: "json \<Rightarrow> bool"
  isRefreshTokenEntity :: "json \<Rightarrow> bool"
  isAppMetadata :: "string \<Rightarrow> bool"
  credentialOfAccount :: "string \<Rightarrow> string \<Rightarrow> bool"
    \<comment> \<open>credential key, account key: the credential belongs to the account\<close>
  localStorageSupported :: bool
  sessionStorageSupported :: bool

record BrowserCacheManager = host +
  clientId :: string
  cacheLocation :: BrowserCacheLocation
  temporaryCacheLocation :: BrowserCacheLocation
  storeAuthStateInCookie :: bool

text \<open>\<^verbatim>\<open>getStorageImplementation\<close>: the medium for a configured location; when the storage
  class cannot be built (its constructor throws) the \<^verbatim>\<open>catch\<close> falls through to a new
  \<^verbatim>\<open>MemoryStorage\<close>, here the memory medium \<open>mem\<close> of the scope.\<close>

definition getStorageImplementation ::
  "('a BrowserCacheManager_scheme) \<Rightarrow> BrowserCacheLocation \<Rightarrow> medium \<Rightarrow> medium" where
  "getStorageImplementation this loc mem =
     (case loc of
        LocalStorage \<Rightarrow> if localStorageSupported this then LocalM else mem
      | SessionStorage \<Rightarrow> if sessionStorageSupported this then SessionM else mem
      | MemoryStorage \<Rightarrow> mem)"

definition browserStorage :: "('a BrowserCacheManager_scheme) \<Rightarrow> medium" where
  "browserStorage this = getStorageImplementation this (cacheLocation this) BrowserMemoryM"

definition temporaryCacheStorage :: "('a BrowserCacheManager_scheme) \<Rightarrow> medium" where
  "temporaryCacheStorage this =
     getStorageImplementation this (temporaryCacheLocation this) TemporaryMemoryM"

definition validateAndParseJson :: "('a BrowserCacheManager_scheme) \<Rightarrow> string \<Rightarrow> json option" where
  "validateAndParseJson this jsonValue =
     (case JSON_parse this jsonValue of
        None \<Rightarrow> None
      | Some parsedJson \<Rightarrow> if isObject parsedJson then Some parsedJson else None)"

definition generateCacheKey :: "('a BrowserCacheManager_scheme) \<Rightarrow> string \<Rightarrow> string" where
  "generateCacheKey this key =
     (case validateAndParseJson this key of
        None \<Rightarrow>
          if startsWith key (CACHE_PREFIX this) then key
          else CACHE_PREFIX this @ ''.'' @ clientId this @ ''.'' @ key
      | Some generatedKey \<Rightarrow> JSON_stringify this (JStr key))"

section \<open>Temporary cache\<close>

definition getTemporaryCache ::
  "('a BrowserCacheManager_scheme) \<Rightarrow> string \<Rightarrow> bool \<Rightarrow> media \<Rightarrow> string option" where
  "getTemporaryCache this cacheKey generateKey s =
     (let key = (if generateKey then generateCacheKey this cacheKey else cacheKey);
          itemCookie = storage_getItem CookieM s key
      in if storeAuthStateInCookie this \<and> truthy itemCookie then itemCookie
         else
           (let v = storage_getItem (temporaryCacheStorage this) s key
            in if \<not> truthy v then
                 (let item = storage_getItem (browserStorage this) s key
                  in if cacheLocation this = LocalStorage \<and> truthy item then item else None)
               else v))"

definition setTemporaryCache ::
  "('a BrowserCacheManager_scheme) \<Rightarrow> string \<Rightarrow> string \<Rightarrow> bool \<Rightarrow> media \<Rightarrow> media" where
  "setTemporaryCache this cacheKey v generateKey s =
     (let key = (if generateKey then generateCacheKey this cacheKey else cacheKey);
          s1 = storage_setItem (temporaryCacheStorage this) key v s
      in if storeAuthStateInCookie this then storage_setItem CookieM key v s1 else s1)"

definition removeTemporaryItem ::
  "('a BrowserCacheManager_scheme) \<Rightarrow> string \<Rightarrow> media \<Rightarrow> media" where
  "removeTemporaryItem this key s =
     (let s1 = storage_removeItem (temporaryCacheStorage this) key s
      in if storeAuthStateInCookie this then storage_removeItem CookieM key s1 else s1)"

section \<open>Interaction-in-progress lock\<close>

definition interactionStatusKey :: "('a BrowserCacheManager_scheme) \<Rightarrow> string" where
  "interactionStatusKey this = CACHE_PREFIX this @ ''.'' @ INTERACTION_STATUS_KEY this"

definition getInteractionInProgress ::
  "('a BrowserCacheManager_scheme) \<Rightarrow> media \<Rightarrow> string option" where
  "getInteractionInProgress this s = getTemporaryCache this (interactionStatusKey this) False s"

definition isInteractionInProgress ::
  "('a BrowserCacheManager_scheme) \<Rightarrow> bool \<Rightarrow> media \<Rightarrow> bool" where
  "isInteractionInProgress this matchClientId s =
     (let cid = getInteractionInProgress this s
      in if matchClientId then cid = Some (clientId this) else truthy cid)"

definition setInteractionInProgress ::
  "('a BrowserCacheManager_scheme) \<Rightarrow> bool \<Rightarrow> media \<Rightarrow> (error + unit) \<times> media" where
  "setInteractionInProgress this inProgress s =
     (let key = interactionStatusKey this
      in if inProgress then
           (if truthy (getInteractionInProgress this s)
            then (Inl (BrowserAuthError interactionInProgress), s)
            else (Inr (), setTemporaryCache this key (clientId this) False s))
         else if \<not> inProgress \<and> getInteractionInProgress this s = Some (clientId this)
           then (Inr (), removeTemporaryItem this key s)
           else (Inr (), s))"

section \<open>Key index maps\<close>

record TokenKeys =
  idToken :: "string list"
  accessToken :: "string list"
  refreshToken :: "string list"

definition keys_json :: "string list \<Rightarrow> json" where
  "keys_json ks = JArr (map JStr ks)"

definition tokenKeys_json :: "TokenKeys \<Rightarrow> json" where
  "tokenKeys_json tk =
     JObj [(''idToken'', keys_json (idToken tk)),
           (''accessToken'', keys_json (accessToken tk)),
           (''refreshToken'', keys_json (refreshToken tk))]"

fun json_string :: "json \<Rightarrow> string option" where
  "json_string (JStr x) = Some x"
| "json_string j = None"

fun json_keys :: "json \<Rightarrow> string list option" where
  "json_keys (JArr xs) = those (map json_string xs)"
| "json_keys j = None"

fun json_tokenKeys :: "json \<Rightarrow> TokenKeys option" where
  "json_tokenKeys (JObj fs) =
     (case (map_of fs ''idToken'', map_of fs ''accessToken'', map_of fs ''refreshToken'') of
        (Some a, Some b, Some c) \<Rightarrow>
          (case (json_keys a, json_keys b, json_keys c) of
             (Some x, Some y, Some z) \<Rightarrow>
               Some \<lparr>idToken = x, accessToken = y, refreshToken = z\<rparr>
           | _ \<Rightarrow> None)
      | _ \<Rightarrow> None)"
| "json_tokenKeys j = None"

text \<open>Modelled from the spec: \<^verbatim>\<open>getAccountKeys\<close> and \<^verbatim>\<open>getTokenKeys\<close> of the imported
  \<^verbatim>\<open>CacheHelpers.js\<close>, after section 4.2: "decode current array (default empty on
  absence/corruption)", from the account slot and from the token slot of this client id.\<close>

definition getAccountKeys :: "('a BrowserCacheManager_scheme) \<Rightarrow> media \<Rightarrow> string list" where
  "getAccountKeys this s =
     (case storage_getItem (browserStorage this) s (ACCOUNT_KEYS this) of
        None \<Rightarrow> []
      | Some accountKeys \<Rightarrow>
          (case JSON_parse this accountKeys of
             None \<Rightarrow> []
           | Some j \<Rightarrow> (case json_keys j of None \<Rightarrow> [] | Some ks \<Rightarrow> ks)))"

definition tokenKeysSlot :: "('a BrowserCacheManager_scheme) \<Rightarrow> string" where
  "tokenKeysSlot this = TOKEN_KEYS this @ ''.'' @ clientId this"

definition getTokenKeys :: "('a BrowserCacheManager_scheme) \<Rightarrow> media \<Rightarrow> TokenKeys" where
  "getTokenKeys this s =
     (case storage_getItem (browserStorage this) s (tokenKeysSlot this) of
        None \<Rightarrow> \<lparr>idToken = [], accessToken = [], refreshToken = []\<rparr>
      | Some item \<Rightarrow>
          (case JSON_parse this item of
             None \<Rightarrow> \<lparr>idToken = [], accessToken = [], refreshToken = []\<rparr>
           | Some j \<Rightarrow>
               (case json_tokenKeys j of
                  None \<Rightarrow> \<lparr>idToken = [], accessToken = [], refreshToken = []\<rparr>
                | Some tk \<Rightarrow> tk)))"

definition addAccountKeyToMap :: "('a BrowserCacheManager_scheme) \<Rightarrow> string \<Rightarrow> media \<Rightarrow> media" where
  "addAccountKeyToMap this key s =
     (let accountKeys = getAccountKeys this s
      in if Array_indexOf accountKeys key = -1
         then storage_setItem (browserStorage this) (ACCOUNT_KEYS this)
                (JSON_stringify this (keys_json (accountKeys @ [key]))) s
         else s)"

definition removeAccountKeyFromMap ::
  "('a BrowserCacheManager_scheme) \<Rightarrow> string \<Rightarrow> media \<Rightarrow> media" where
  "removeAccountKeyFromMap this key s =
     (let accountKeys = getAccountKeys this s;
          removalIndex = Array_indexOf accountKeys key
      in if removalIndex > -1
         then storage_setItem (browserStorage this) (ACCOUNT_KEYS this)
                (JSON_stringify this (keys_json (splice1 removalIndex accountKeys))) s
         else s)"

definition addTokenKey ::
  "('a BrowserCacheManager_scheme) \<Rightarrow> string \<Rightarrow> CredentialType \<Rightarrow> media \<Rightarrow> (error + unit) \<times> media" where
  "addTokenKey this key type s =
     (let tokenKeys = getTokenKeys this s
      in case (case type of
                 ID_TOKEN \<Rightarrow>
                   Inr (if Array_indexOf (idToken tokenKeys) key = -1
                        then tokenKeys\<lparr>idToken := idToken tokenKeys @ [key]\<rparr> else tokenKeys)
               | ACCESS_TOKEN \<Rightarrow>
                   Inr (if Array_indexOf (accessToken tokenKeys) key = -1
                        then tokenKeys\<lparr>accessToken := accessToken tokenKeys @ [key]\<rparr>
                        else tokenKeys)
               | REFRESH_TOKEN \<Rightarrow>
                   Inr (if Array_indexOf (refreshToken tokenKeys) key = -1
                        then tokenKeys\<lparr>refreshToken := refreshToken tokenKeys @ [key]\<rparr>
                        else tokenKeys)
               | ACCESS_TOKEN_WITH_AUTH_SCHEME \<Rightarrow>
                   Inl (ClientAuthError unexpectedCredentialType)) of
           Inl err \<Rightarrow> (Inl err, s)
         | Inr tokenKeys' \<Rightarrow>
             (Inr (), storage_setItem (browserStorage this) (tokenKeysSlot this)
                        (JSON_stringify this (tokenKeys_json tokenKeys')) s))"

definition removeTokenKey ::
  "('a BrowserCacheManager_scheme) \<Rightarrow> string \<Rightarrow> CredentialType \<Rightarrow> media \<Rightarrow> (error + unit) \<times> media" where
  "removeTokenKey this key type s =
     (let tokenKeys = getTokenKeys this s
      in case (case type of
                 ID_TOKEN \<Rightarrow>
                   (let idRemoval = Array_indexOf (idToken tokenKeys) key
                    in Inr (if idRemoval > -1
                            then tokenKeys\<lparr>idToken := splice1 idRemoval (idToken tokenKeys)\<rparr>
                            else tokenKeys))
               | ACCESS_TOKEN \<Rightarrow>
                   (let accessRemoval = Array_indexOf (accessToken tokenKeys) key
                    in Inr (if accessRemoval > -1
                            then tokenKeys\<lparr>accessToken :=
                                   splice1 accessRemoval (accessToken tokenKeys)\<rparr>
                            else tokenKeys))
               | REFRESH_TOKEN \<Rightarrow>
                   (let refreshRemoval = Array_indexOf (refreshToken tokenKeys) key
                    in Inr (if refreshRemoval > -1
                            then tokenKeys\<lparr>refreshToken :=
                                   splice1 refreshRemoval (refreshToken tokenKeys)\<rparr>
                            else tokenKeys))
               | ACCESS_TOKEN_WITH_AUTH_SCHEME \<Rightarrow>
                   Inl (ClientAuthError unexpectedCredentialType)) of
           Inl err \<Rightarrow> (Inl err, s)
         | Inr tokenKeys' \<Rightarrow>
             (Inr (), storage_setItem (browserStorage this) (tokenKeysSlot this)
                        (JSON_stringify this (tokenKeys_json tokenKeys')) s))"

section \<open>Entity reads and removals\<close>

definition removeItem :: "('a BrowserCacheManager_scheme) \<Rightarrow> string \<Rightarrow> media \<Rightarrow> media" where
  "removeItem this key s = storage_removeItem (browserStorage this) key s"

text \<open>Modelled from the spec: the removals of the imported base class \<^verbatim>\<open>CacheManager\<close>
  that the overrides reach through \<^verbatim>\<open>super\<close>; section 4.3: "remove the entity from the
  backing store".\<close>

definition CacheManager_removeAccount ::
  "('a BrowserCacheManager_scheme) \<Rightarrow> string \<Rightarrow> media \<Rightarrow> media" where
  "CacheManager_removeAccount this key s = removeItem this key s"

definition CacheManager_removeIdToken ::
  "('a BrowserCacheManager_scheme) \<Rightarrow> string \<Rightarrow> media \<Rightarrow> media" where
  "CacheManager_removeIdToken this key s = removeItem this key s"

definition CacheManager_removeAccessToken ::
  "('a BrowserCacheManager_scheme) \<Rightarrow> string \<Rightarrow> media \<Rightarrow> media" where
  "CacheManager_removeAccessToken this key s = removeItem this key s"

definition CacheManager_removeRefreshToken ::
  "('a BrowserCacheManager_scheme) \<Rightarrow> string \<Rightarrow> media \<Rightarrow> media" where
  "CacheManager_removeRefreshToken this key s = removeItem this key s"

definition getAccount ::
  "('a BrowserCacheManager_scheme) \<Rightarrow> string \<Rightarrow> media \<Rightarrow> json option \<times> media" where
  "getAccount this accountKey s =
     (let serializedAccount = storage_getUserData (browserStorage this) s accountKey
      in if \<not> truthy serializedAccount
         then (None, removeAccountKeyFromMap this accountKey s)
         else
           (case validateAndParseJson this (the serializedAccount) of
              None \<Rightarrow> (None, removeAccountKeyFromMap this accountKey s)
            | Some parsedAccount \<Rightarrow>
                if \<not> isAccountEntity this parsedAccount
                then (None, removeAccountKeyFromMap this accountKey s)
                else (Some parsedAccount, s)))"

definition getIdTokenCredential ::
  "('a BrowserCacheManager_scheme) \<Rightarrow> string \<Rightarrow> media \<Rightarrow> (error + json option) \<times> media" where
  "getIdTokenCredential this idTokenKey s =
     (let v = storage_getUserData (browserStorage this) s idTokenKey
      in if \<not> truthy v
         then (case removeTokenKey this idTokenKey ID_TOKEN s of
                 (Inl err, s') \<Rightarrow> (Inl err, s') | (Inr u, s') \<Rightarrow> (Inr None, s'))
         else
           (case validateAndParseJson this (the v) of
              None \<Rightarrow>
                (case removeTokenKey this idTokenKey ID_TOKEN s of
                   (Inl err, s') \<Rightarrow> (Inl err, s') | (Inr u, s') \<Rightarrow> (Inr None, s'))
            | Some parsedIdToken \<Rightarrow>
                if \<not> isIdTokenEntity this parsedIdToken
                then (case removeTokenKey this idTokenKey ID_TOKEN s of
                        (Inl err, s') \<Rightarrow> (Inl err, s') | (Inr u, s') \<Rightarrow> (Inr None, s'))
                else (Inr (Some parsedIdToken), s)))"

definition getAccessTokenCredential ::
  "('a BrowserCacheManager_scheme) \<Rightarrow> string \<Rightarrow> media \<Rightarrow> (error + json option) \<times> media" where
  "getAccessTokenCredential this accessTokenKey s =
     (let v = storage_getUserData (browserStorage this) s accessTokenKey
      in if \<not> truthy v
         then (case removeTokenKey this accessTokenKey ACCESS_TOKEN s of
                 (Inl err, s') \<Rightarrow> (Inl err, s') | (Inr u, s') \<Rightarrow> (Inr None, s'))
         else
           (case validateAndParseJson this (the v) of
              None \<Rightarrow>
                (case removeTokenKey this accessTokenKey ACCESS_TOKEN s of
                   (Inl err, s') \<Rightarrow> (Inl err, s') | (Inr u, s') \<Rightarrow> (Inr None, s'))
            | Some parsedAccessToken \<Rightarrow>
                if \<not> isAccessTokenEntity this parsedAccessToken
                then (case removeTokenKey this accessTokenKey ACCESS_TOKEN s of
                        (Inl err, s') \<Rightarrow> (Inl err, s') | (Inr u, s') \<Rightarrow> (Inr None, s'))
                else (Inr (Some parsedAccessToken), s)))"

definition getRefreshTokenCredential ::
  "('a BrowserCacheManager_scheme) \<Rightarrow> string \<Rightarrow> media \<Rightarrow> (error + json option) \<times> media" where
  "getRefreshTokenCredential this refreshTokenKey s =
     (let v = storage_getUserData (browserStorage this) s refreshTokenKey
      in if \<not> truthy v
         then (case removeTokenKey this refreshTokenKey REFRESH_TOKEN s of
                 (Inl err, s') \<Rightarrow> (Inl err, s') | (Inr u, s') \<Rightarrow> (Inr None, s'))
         else
           (case validateAndParseJson this (the v) of
              None \<Rightarrow>
                (case removeTokenKey this refreshTokenKey REFRESH_TOKEN s of
                   (Inl err, s') \<Rightarrow> (Inl err, s') | (Inr u, s') \<Rightarrow> (Inr None, s'))
            | Some parsedRefreshToken \<Rightarrow>
                if \<not> isRefreshTokenEntity this parsedRefreshToken
                then (case removeTokenKey this refreshTokenKey REFRESH_TOKEN s of
                        (Inl err, s') \<Rightarrow> (Inl err, s') | (Inr u, s') \<Rightarrow> (Inr None, s'))
                else (Inr (Some parsedRefreshToken), s)))"

text \<open>The overrides: the base removal, then the key leaves the index. The source does not
  wait for the asynchronous base removals (\<^verbatim>\<open>void super.removeAccount(key)\<close>); the model
  runs the two steps one after the other, as section 4.3 describes them.\<close>

definition removeAccount :: "('a BrowserCacheManager_scheme) \<Rightarrow> string \<Rightarrow> media \<Rightarrow> media" where
  "removeAccount this key s =
     removeAccountKeyFromMap this key (CacheManager_removeAccount this key s)"

definition removeIdToken ::
  "('a BrowserCacheManager_scheme) \<Rightarrow> string \<Rightarrow> media \<Rightarrow> (error + unit) \<times> media" where
  "removeIdToken this key s =
     removeTokenKey this key ID_TOKEN (CacheManager_removeIdToken this key s)"

definition removeAccessToken ::
  "('a BrowserCacheManager_scheme) \<Rightarrow> string \<Rightarrow> media \<Rightarrow> (error + unit) \<times> media" where
  "removeAccessToken this key s =
     removeTokenKey this key ACCESS_TOKEN (CacheManager_removeAccessToken this key s)"

definition removeRefreshToken ::
  "('a BrowserCacheManager_scheme) \<Rightarrow> string \<Rightarrow> media \<Rightarrow> (error + unit) \<times> media" where
  "removeRefreshToken this key s =
     removeTokenKey this key REFRESH_TOKEN (CacheManager_removeRefreshToken this key s)"

section \<open>Request state and flow correlation\<close>

definition generateAuthorityKey :: "('a BrowserCacheManager_scheme) \<Rightarrow> string \<Rightarrow> error + string" where
  "generateAuthorityKey this stateString =
     (case parseRequestState this stateString of
        Inl err \<Rightarrow> Inl err
      | Inr stateId \<Rightarrow> Inr (generateCacheKey this (AUTHORITY this @ ''.'' @ stateId)))"

definition generateNonceKey :: "('a BrowserCacheManager_scheme) \<Rightarrow> string \<Rightarrow> error + string" where
  "generateNonceKey this stateString =
     (case parseRequestState this stateString of
        Inl err \<Rightarrow> Inl err
      | Inr stateId \<Rightarrow> Inr (generateCacheKey this (NONCE_IDTOKEN this @ ''.'' @ stateId)))"

definition generateStateKey :: "('a BrowserCacheManager_scheme) \<Rightarrow> string \<Rightarrow> error + string" where
  "generateStateKey this stateString =
     (case parseRequestState this stateString of
        Inl err \<Rightarrow> Inl err
      | Inr stateId \<Rightarrow> Inr (generateCacheKey this (REQUEST_STATE this @ ''.'' @ stateId)))"

definition getCachedAuthority ::
  "('a BrowserCacheManager_scheme) \<Rightarrow> string \<Rightarrow> media \<Rightarrow> error + string option" where
  "getCachedAuthority this cachedState s =
     (case generateStateKey this cachedState of
        Inl err \<Rightarrow> Inl err
      | Inr stateCacheKey \<Rightarrow>
          (case getTemporaryCache this stateCacheKey False s of
             None \<Rightarrow> Inr None
           | Some state \<Rightarrow>
               (case generateAuthorityKey this state of
                  Inl err \<Rightarrow> Inl err
                | Inr authorityCacheKey \<Rightarrow>
                    Inr (getTemporaryCache this authorityCacheKey False s))))"

record AccountInfo =
  homeAccountId :: string
  environment :: string
  tenantId :: string
  username :: string
  localAccountId :: string

definition ccsCredential_json :: "string \<Rightarrow> string \<Rightarrow> json" where
  "ccsCredential_json credential type = JObj [(''credential'', JStr credential), (''type'', JStr type)]"

definition updateCacheEntries ::
  "('a BrowserCacheManager_scheme) \<Rightarrow> string \<Rightarrow> string \<Rightarrow> string \<Rightarrow> string \<Rightarrow> AccountInfo option
     \<Rightarrow> media \<Rightarrow> (error + unit) \<times> media" where
  "updateCacheEntries this state nonce authorityInstance loginHint account s =
     (case generateStateKey this state of
        Inl err \<Rightarrow> (Inl err, s)
      | Inr stateCacheKey \<Rightarrow>
          (let s1 = setTemporaryCache this stateCacheKey state False s
           in case generateNonceKey this state of
                Inl err \<Rightarrow> (Inl err, s1)
              | Inr nonceCacheKey \<Rightarrow>
                  (let s2 = setTemporaryCache this nonceCacheKey nonce False s1
                   in case generateAuthorityKey this state of
                        Inl err \<Rightarrow> (Inl err, s2)
                      | Inr authorityCacheKey \<Rightarrow>
                          (let s3 = setTemporaryCache this authorityCacheKey authorityInstance False s2
                           in case account of
                                Some a \<Rightarrow>
                                  (Inr (), setTemporaryCache this (CCS_CREDENTIAL this)
                                     (JSON_stringify this
                                        (ccsCredential_json (homeAccountId a) (HOME_ACCOUNT_ID this)))
                                     True s3)
                              | None \<Rightarrow>
                                  if loginHint \<noteq> []
                                  then (Inr (), setTemporaryCache this (CCS_CREDENTIAL this)
                                          (JSON_stringify this
                                             (ccsCredential_json loginHint (UPN this)))
                                          True s3)
                                  else (Inr (), s3)))))"

definition resetRequestCache ::
  "('a BrowserCacheManager_scheme) \<Rightarrow> string \<Rightarrow> media \<Rightarrow> (error + unit) \<times> media" where
  "resetRequestCache this state s =
     (case (if state \<noteq> [] then
              (let s1 = fold (\<lambda>key acc. if indexOf key state \<noteq> -1
                                        then removeTemporaryItem this key acc else acc)
                          (storage_getKeys (temporaryCacheStorage this) s) s
               in case generateStateKey this state of
                    Inl err \<Rightarrow> (Inl err, s1)
                  | Inr stateKey \<Rightarrow>
                      (let s2 = removeTemporaryItem this stateKey s1
                       in case generateNonceKey this state of
                            Inl err \<Rightarrow> (Inl err, s2)
                          | Inr nonceKey \<Rightarrow>
                              (let s3 = removeTemporaryItem this nonceKey s2
                               in case generateAuthorityKey this state of
                                    Inl err \<Rightarrow> (Inl err, s3)
                                  | Inr authorityKey \<Rightarrow>
                                      (Inr (), removeTemporaryItem this authorityKey s3))))
            else (Inr (), s)) of
        (Inl err, s') \<Rightarrow> (Inl err, s')
      | (Inr u, s4) \<Rightarrow>
          (let s5 = removeTemporaryItem this (generateCacheKey this (REQUEST_PARAMS this)) s4;
               s6 = removeTemporaryItem this (generateCacheKey this (ORIGIN_URI this)) s5;
               s7 = removeTemporaryItem this (generateCacheKey this (URL_HASH this)) s6;
               s8 = removeTemporaryItem this (generateCacheKey this (CORRELATION_ID this)) s7;
               s9 = removeTemporaryItem this (generateCacheKey this (CCS_CREDENTIAL this)) s8;
               s10 = removeTemporaryItem this (generateCacheKey this (NATIVE_REQUEST this)) s9
           in setInteractionInProgress this False s10))"

definition cleanRequestByState ::
  "('a BrowserCacheManager_scheme) \<Rightarrow> string \<Rightarrow> media \<Rightarrow> (error + unit) \<times> media" where
  "cleanRequestByState this stateString s =
     (if stateString \<noteq> [] then
        (case generateStateKey this stateString of
           Inl err \<Rightarrow> (Inl err, s)
         | Inr stateKey \<Rightarrow>
             (let cachedState = storage_getItem (temporaryCacheStorage this) s stateKey
              in resetRequestCache this (if truthy cachedState then the cachedState else []) s))
      else (Inr (), s))"

text \<open>\<^verbatim>\<open>array.forEach(f)\<close> with a callback that may throw: the first throw ends the loop
  and leaves the state as it is at that moment.\<close>

fun forEach :: "('k \<Rightarrow> media \<Rightarrow> (error + unit) \<times> media) \<Rightarrow> 'k list \<Rightarrow> media \<Rightarrow> (error + unit) \<times> media" where
  "forEach f [] s = (Inr (), s)"
| "forEach f (key # keys) s =
     (case f key s of
        (Inl err, s') \<Rightarrow> (Inl err, s')
      | (Inr u, s') \<Rightarrow> forEach f keys s')"

definition cleanRequestByInteractionType ::
  "('a BrowserCacheManager_scheme) \<Rightarrow> InteractionType \<Rightarrow> media \<Rightarrow> (error + unit) \<times> media" where
  "cleanRequestByInteractionType this interactionType s =
     (case forEach
             (\<lambda>key acc.
                if indexOf key (REQUEST_STATE this) = -1 then (Inr (), acc)
                else
                  (let stateValue = storage_getItem (temporaryCacheStorage this) acc key
                   in if \<not> truthy stateValue then (Inr (), acc)
                      else
                        (case extractBrowserRequestState this (the stateValue) of
                           Inl err \<Rightarrow> (Inl err, acc)
                         | Inr parsedState \<Rightarrow>
                             if parsedState = Some interactionType
                             then resetRequestCache this (the stateValue) acc
                             else (Inr (), acc))))
             (storage_getKeys (temporaryCacheStorage this) s) s of
        (Inl err, s') \<Rightarrow> (Inl err, s')
      | (Inr u, s') \<Rightarrow> setInteractionInProgress this False s')"

text \<open>Property reads and writes on a parsed JSON value, as \<^verbatim>\<open>getCachedRequest\<close> does them on
  \<^verbatim>\<open>parsedRequest.authority\<close>: reading a property of \<^verbatim>\<open>null\<close> throws a \<^verbatim>\<open>TypeError\<close>, a
  primitive value or an array has no such property, and the module (strict mode) cannot
  create a property on a primitive value. A property written on an array does not show in
  its JSON value.\<close>

fun json_get :: "json \<Rightarrow> string \<Rightarrow> error + json option" where
  "json_get JNull name = Inl TypeError"
| "json_get (JObj fs) name = Inr (map_of fs name)"
| "json_get j name = Inr None"

fun json_truthy :: "json option \<Rightarrow> bool" where
  "json_truthy None = False"
| "json_truthy (Some JNull) = False"
| "json_truthy (Some (JBool b)) = b"
| "json_truthy (Some (JNum n)) = (n \<noteq> 0)"
| "json_truthy (Some (JStr x)) = (x \<noteq> [])"
| "json_truthy (Some j) = True"

fun json_set :: "json \<Rightarrow> string \<Rightarrow> json \<Rightarrow> error + json" where
  "json_set (JObj fs) name v = Inr (JObj (AList.update name v fs))"
| "json_set (JArr xs) name v = Inr (JArr xs)"
| "json_set j name v = Inl TypeError"

definition getCachedRequest ::
  "('a BrowserCacheManager_scheme) \<Rightarrow> string \<Rightarrow> media \<Rightarrow> (error + json) \<times> media" where
  "getCachedRequest this state s =
     (case getTemporaryCache this (REQUEST_PARAMS this) True s of
        None \<Rightarrow> (Inl (BrowserAuthError noTokenRequestCacheError), s)
      | Some encodedTokenRequest \<Rightarrow>
          (case (case base64Decode this encodedTokenRequest of
                   None \<Rightarrow> None
                 | Some decoded \<Rightarrow> JSON_parse this decoded) of
             None \<Rightarrow> (Inl (BrowserAuthError unableToParseTokenRequestCacheError), s)
           | Some parsedRequest \<Rightarrow>
               (let s1 = removeTemporaryItem this (generateCacheKey this (REQUEST_PARAMS this)) s
                in case json_get parsedRequest ''authority'' of
                     Inl err \<Rightarrow> (Inl err, s1)
                   | Inr authority \<Rightarrow>
                       if \<not> json_truthy authority then
                         (case generateAuthorityKey this state of
                            Inl err \<Rightarrow> (Inl err, s1)
                          | Inr authorityCacheKey \<Rightarrow>
                              (case getTemporaryCache this authorityCacheKey False s1 of
                                 None \<Rightarrow> (Inl (BrowserAuthError noCachedAuthorityError), s1)
                               | Some cachedAuthority \<Rightarrow>
                                   (json_set parsedRequest ''authority'' (JStr cachedAuthority), s1)))
                       else (Inr parsedRequest, s1))))"

section \<open>Bulk clear\<close>

text \<open>Modelled from the spec: \<^verbatim>\<open>removeAllAccounts\<close> and \<^verbatim>\<open>removeAppMetadata\<close> of the imported
  base class \<^verbatim>\<open>CacheManager\<close>, after section 4.8: "Remove every account and, for each, every
  associated credential across all three token categories; remove app-metadata entries".
  Which credential belongs to which account, and which key is an app-metadata key, are
  decided by the host functions \<open>credentialOfAccount\<close> and \<open>isAppMetadata\<close>.\<close>

definition CacheManager_removeAccountContext ::
  "('a BrowserCacheManager_scheme) \<Rightarrow> string \<Rightarrow> media \<Rightarrow> (error + unit) \<times> media" where
  "CacheManager_removeAccountContext this accountKey s =
     (let allTokenKeys = getTokenKeys this s
      in case forEach (\<lambda>key acc. if credentialOfAccount this key accountKey
                                  then removeIdToken this key acc else (Inr (), acc))
                (idToken allTokenKeys) s of
           (Inl err, s') \<Rightarrow> (Inl err, s')
         | (Inr u, s1) \<Rightarrow>
             (case forEach (\<lambda>key acc. if credentialOfAccount this key accountKey
                                       then removeAccessToken this key acc else (Inr (), acc))
                     (accessToken allTokenKeys) s1 of
                (Inl err, s') \<Rightarrow> (Inl err, s')
              | (Inr u, s2) \<Rightarrow>
                  forEach (\<lambda>key acc. if credentialOfAccount this key accountKey
                                      then removeRefreshToken this key acc else (Inr (), acc))
                    (refreshToken allTokenKeys) s2))"

definition CacheManager_removeAllAccounts ::
  "('a BrowserCacheManager_scheme) \<Rightarrow> media \<Rightarrow> (error + unit) \<times> media" where
  "CacheManager_removeAllAccounts this s =
     forEach (\<lambda>accountKey acc.
                case CacheManager_removeAccountContext this accountKey acc of
                  (Inl err, s') \<Rightarrow> (Inl err, s')
                | (Inr u, s') \<Rightarrow> (Inr (), removeAccount this accountKey s'))
       (getAccountKeys this s) s"

definition CacheManager_removeAppMetadata ::
  "('a BrowserCacheManager_scheme) \<Rightarrow> media \<Rightarrow> media" where
  "CacheManager_removeAppMetadata this s =
     fold (\<lambda>cacheKey acc. if isAppMetadata this cacheKey then removeItem this cacheKey acc else acc)
       (storage_getKeys (browserStorage this) s) s"

definition clear :: "('a BrowserCacheManager_scheme) \<Rightarrow> media \<Rightarrow> (error + unit) \<times> media" where
  "clear this s =
     (case CacheManager_removeAllAccounts this s of
        (Inl err, s') \<Rightarrow> (Inl err, s')
      | (Inr u, s1) \<Rightarrow>
          (let s2 = CacheManager_removeAppMetadata this s1;
               s3 = fold (\<lambda>cacheKey acc.
                            if indexOf cacheKey (CACHE_PREFIX this) \<noteq> -1
                               \<or> indexOf cacheKey (clientId this) \<noteq> -1
                            then removeTemporaryItem this cacheKey acc else acc)
                      (storage_getKeys (temporaryCacheStorage this) s2) s2;
               s4 = fold (\<lambda>cacheKey acc.
                            if indexOf cacheKey (CACHE_PREFIX this) \<noteq> -1
                               \<or> indexOf cacheKey (clientId this) \<noteq> -1
                            then storage_removeItem (browserStorage this) cacheKey acc else acc)
                      (storage_getKeys (browserStorage this) s3) s3
           in (Inr (), storage_clear InternalM s4)))"

section \<open>A concrete manager for the examples\<close>

text \<open>
  The examples run the definitions on a concrete manager. Its key constants are those of
  the library the source imports; its JSON functions are a small codec that is enough for
  the key indexes (every character of a key is written after a marker, every key ends with
  a terminator), and its state blobs are written \<^verbatim>\<open>id|interactionType\<close>.
\<close>

definition enc_key :: "string \<Rightarrow> string" where
  "enc_key k = concat (map (\<lambda>c. [CHR ''c'', c]) k) @ [CHR ''e'']"

definition enc_keys :: "string list \<Rightarrow> string" where
  "enc_keys ks = concat (map enc_key ks)"

fun dec_keys :: "string \<Rightarrow> string list option" where
  "dec_keys [] = Some []"
| "dec_keys [x] = (if x = CHR ''e'' then Some [[]] else None)"
| "dec_keys (x # c # r) =
     (if x = CHR ''e'' then map_option ((#) []) (dec_keys (c # r))
      else (case dec_keys r of Some (k # ks) \<Rightarrow> Some ((c # k) # ks) | _ \<Rightarrow> None))"

definition untag :: "char \<Rightarrow> string list \<Rightarrow> string list" where
  "untag t ks = map tl (filter (\<lambda>k. case k of [] \<Rightarrow> False | h # r \<Rightarrow> h = t) ks)"

definition demo_stringify :: "json \<Rightarrow> string" where
  "demo_stringify j =
     (case json_keys j of
        Some ks \<Rightarrow> CHR ''A'' # enc_keys ks
      | None \<Rightarrow>
          (case json_tokenKeys j of
             Some tk \<Rightarrow>
               CHR ''T'' # enc_keys (map ((#) CHR ''i'') (idToken tk)
                                     @ map ((#) CHR ''a'') (accessToken tk)
                                     @ map ((#) CHR ''r'') (refreshToken tk))
           | None \<Rightarrow> (case j of JStr x \<Rightarrow> CHR ''S'' # x | _ \<Rightarrow> ''O'')))"

definition demo_parse :: "string \<Rightarrow> json option" where
  "demo_parse x =
     (case x of
        [] \<Rightarrow> None
      | c # r \<Rightarrow>
          if c = CHR ''A'' then map_option keys_json (dec_keys r)
          else if c = CHR ''T'' then
            map_option (\<lambda>ks. tokenKeys_json
                               \<lparr>idToken = untag CHR ''i'' ks, accessToken = untag CHR ''a'' ks,
                                refreshToken = untag CHR ''r'' ks\<rparr>) (dec_keys r)
          else if c = CHR ''S'' then Some (JStr r)
          else if x = ''{}'' then Some (JObj [])
          else None)"

definition demo_parseRequestState :: "string \<Rightarrow> error + string" where
  "demo_parseRequestState x =
     (if x = [] then Inl (ClientAuthError invalidState)
      else Inr (takeWhile (\<lambda>c. c \<noteq> CHR ''|'') x))"

definition demo_extractBrowserRequestState :: "string \<Rightarrow> error + InteractionType option" where
  "demo_extractBrowserRequestState x =
     (if x = [] then Inr None
      else if CHR ''|'' \<in> set x then Inr (Some (drop 1 (dropWhile (\<lambda>c. c \<noteq> CHR ''|'') x)))
      else Inl (ClientAuthError invalidState))"

definition demo :: BrowserCacheManager where
  "demo =
     \<lparr>CACHE_PREFIX = ''msal'', ACCOUNT_KEYS = ''msal.account.keys'',
      TOKEN_KEYS = ''msal.token.keys'', AUTHORITY = ''authority'',
      NONCE_IDTOKEN = ''nonce.id_token'', REQUEST_STATE = ''request.state'',
      REQUEST_PARAMS = ''request.params'', ORIGIN_URI = ''request.origin'',
      URL_HASH = ''urlHash'', CORRELATION_ID = ''request.correlationId'',
      CCS_CREDENTIAL = ''ccs.credential'', NATIVE_REQUEST = ''request.native'',
      INTERACTION_STATUS_KEY = ''interaction.status'',
      HOME_ACCOUNT_ID = ''home_account_id'', UPN = ''UPN'',
      JSON_parse = demo_parse, JSON_stringify = demo_stringify, base64Decode = Some,
      parseRequestState = demo_parseRequestState,
      extractBrowserRequestState = demo_extractBrowserRequestState,
      isAccountEntity = (\<lambda>j. False), isIdTokenEntity = (\<lambda>j. False),
      isAccessTokenEntity = (\<lambda>j. False), isRefreshTokenEntity = (\<lambda>j. False),
      isAppMetadata = (\<lambda>k. startsWith k ''appmetadata''),
      credentialOfAccount = (\<lambda>k a. startsWith k a),
      localStorageSupported = True, sessionStorageSupported = True,
      clientId = ''app'', cacheLocation = LocalStorage,
      temporaryCacheLocation = SessionStorage, storeAuthStateInCookie = False\<rparr>"

definition empty_media :: media where
  "empty_media = (\<lambda>m. [])"

text \<open>A second manager on the same page, with another client id.\<close>

definition demo_other :: BrowserCacheManager where
  "demo_other = demo\<lparr>clientId := ''other''\<rparr>"

text \<open>The same manager with the cookie option on; and a page whose cookie jar and
  durable-cross-session medium both hold a value for \<^verbatim>\<open>k\<close> while the per-tab medium holds none.\<close>

definition demo_cookie :: BrowserCacheManager where
  "demo_cookie = demo\<lparr>storeAuthStateInCookie := True\<rparr>"

definition media_cookie_and_legacy :: media where
  "media_cookie_and_legacy =
     empty_media(CookieM := [(''k'', ''from-cookie'')], LocalM := [(''k'', ''from-local'')])"

definition media_legacy :: media where
  "media_legacy = empty_media(LocalM := [(''k'', ''from-local'')])"

definition media_request_params :: media where
  "media_request_params = empty_media(SessionM := [(''msal.app.request.params'', ''{}'')])"

definition media_bad_request_params :: media where
  "media_bad_request_params = empty_media(SessionM := [(''msal.app.request.params'', ''not json'')])"

text \<open>The host's JSON functions give back the key arrays and the token-key records that the
  manager writes: \<^verbatim>\<open>JSON.parse(JSON.stringify(x))\<close> is \<open>x\<close> for these values.\<close>

definition json_roundtrip :: "('a BrowserCacheManager_scheme) \<Rightarrow> bool" where
  "json_roundtrip this \<longleftrightarrow>
     (\<forall>ks. JSON_parse this (JSON_stringify this (keys_json ks)) = Some (keys_json ks))
     \<and> (\<forall>tk. JSON_parse this (JSON_stringify this (tokenKeys_json tk)) = Some (tokenKeys_json tk))"

text \<open>The index of a credential type inside the token-key record.\<close>

fun tokenIndex :: "CredentialType \<Rightarrow> TokenKeys \<Rightarrow> string list" where
  "tokenIndex ID_TOKEN tk = idToken tk"
| "tokenIndex ACCESS_TOKEN tk = accessToken tk"
| "tokenIndex REFRESH_TOKEN tk = refreshToken tk"
| "tokenIndex ACCESS_TOKEN_WITH_AUTH_SCHEME tk = []"

text \<open>What a getter finds unusable under a key: nothing (absent, or the empty string, which
  the source treats alike), a string that does not decode as a JSON object, or a decoded
  value that fails the shape check of the category.\<close>

definition unusable ::
  "('a BrowserCacheManager_scheme) \<Rightarrow> (json \<Rightarrow> bool) \<Rightarrow> string option \<Rightarrow> bool" where
  "unusable this isEntity raw =
     (case raw of
        None \<Rightarrow> True
      | Some v \<Rightarrow>
          v = [] \<or>
          (case JSON_parse this v of
             None \<Rightarrow> True
           | Some j \<Rightarrow> \<not> isObject j \<or> \<not> isEntity j))"

definition media_stale_index :: media where
  "media_stale_index =
     empty_media(LocalM :=
       [(''msal.account.keys'', demo_stringify (keys_json [''K1'', ''K2''])),
        (''msal.token.keys.app'',
         demo_stringify (tokenKeys_json
           \<lparr>idToken = [''i1''], accessToken = [''a1'', ''a2''], refreshToken = [''r1'']\<rparr>)),
        (''K2'', ''not json''),
        (''a1'', ''{}'')])"

text \<open>The keys that \<open>resetRequestCache\<close> removes by name: the three keys derived from the
  request id of the state, and the six generic keys of a flow.\<close>

definition derivedRequestKeys :: "('a BrowserCacheManager_scheme) \<Rightarrow> string \<Rightarrow> string list" where
  "derivedRequestKeys this stateId =
     [generateCacheKey this (REQUEST_STATE this @ ''.'' @ stateId),
      generateCacheKey this (NONCE_IDTOKEN this @ ''.'' @ stateId),
      generateCacheKey this (AUTHORITY this @ ''.'' @ stateId)]"

definition genericRequestKeys :: "('a BrowserCacheManager_scheme) \<Rightarrow> string list" where
  "genericRequestKeys this =
     [generateCacheKey this (REQUEST_PARAMS this),
      generateCacheKey this (ORIGIN_URI this),
      generateCacheKey this (URL_HASH this),
      generateCacheKey this (CORRELATION_ID this),
      generateCacheKey this (CCS_CREDENTIAL this),
      generateCacheKey this (NATIVE_REQUEST this)]"

text \<open>The storages that \<open>removeTemporaryItem\<close> writes: the temporary one, and the cookie jar
  when the cookie option is on.\<close>

definition temporaryMedium :: "('a BrowserCacheManager_scheme) \<Rightarrow> medium \<Rightarrow> bool" where
  "temporaryMedium this m \<longleftrightarrow>
     m = temporaryCacheStorage this \<or> (m = CookieM \<and> storeAuthStateInCookie this)"

text \<open>A page in the middle of a redirect flow of \<open>demo\<close> with state \<^verbatim>\<open>id1|redirect\<close>: the
  three derived entries, the cached request parameters, the lock held by \<open>demo\<close>, an entry
  whose key contains the whole state string, and an entry of the page whose key contains
  the request id \<^verbatim>\<open>id1\<close> only.\<close>

definition media_flow :: media where
  "media_flow =
     empty_media(SessionM :=
       [(''msal.app.request.state.id1'', ''id1|redirect''),
        (''msal.app.nonce.id_token.id1'', ''nonce''),
        (''msal.app.authority.id1'', ''https://login.example/common''),
        (''msal.app.request.params'', ''{}''),
        (''msal.interaction.status'', ''app''),
        (''old.id1|redirect'', ''x''),
        (''custom.id1'', ''v'')])"

text \<open>A page on which an older version of the library left the state and the authority of
  a flow in the durable-cross-session storage, under the keys of request id \<^verbatim>\<open>id1\<close>.\<close>

definition media_legacy_flow :: media where
  "media_legacy_flow =
     empty_media(LocalM :=
       [(''msal.app.request.state.id1'', ''id1|redirect''),
        (''msal.app.authority.id1'', ''https://legacy.example'')])"

text \<open>\<open>onlyRemoved this s s'\<close>: the state \<open>s'\<close> is \<open>s\<close> after some calls of \<open>removeTemporaryItem\<close>.
  Key by key, either nothing changed, or the key lost its value in the temporary storage
  (and in the cookie jar when the cookie option is on) and kept it everywhere else.\<close>

definition onlyRemoved :: "('a BrowserCacheManager_scheme) \<Rightarrow> media \<Rightarrow> media \<Rightarrow> bool" where
  "onlyRemoved this s s' \<longleftrightarrow>
     (\<forall>key. (\<forall>m. storage_getItem m s' key = storage_getItem m s key)
            \<or> ((\<forall>m. temporaryMedium this m \<longrightarrow> storage_getItem m s' key = None)
               \<and> (\<forall>m. \<not> temporaryMedium this m \<longrightarrow>
                        storage_getItem m s' key = storage_getItem m s key)))"

text \<open>Every value stored under a key of the request-state namespace is a state blob that
  the host decodes: \<open>extractBrowserRequestState\<close> does not throw on it, and when its
  interaction type is the one asked for, \<open>parseRequestState\<close> accepts it as well.\<close>

definition requestStatesDecodable ::
  "('a BrowserCacheManager_scheme) \<Rightarrow> InteractionType \<Rightarrow> media \<Rightarrow> bool" where
  "requestStatesDecodable this interactionType s \<longleftrightarrow>
     (\<forall>key v. storage_getItem (temporaryCacheStorage this) s key = Some v \<and> v \<noteq> []
              \<and> indexOf key (REQUEST_STATE this) \<noteq> -1 \<longrightarrow>
        (\<exists>parsedState. extractBrowserRequestState this v = Inr parsedState
           \<and> (parsedState = Some interactionType \<longrightarrow>
                (\<exists>stateId. parseRequestState this v = Inr stateId))))"

text \<open>A page with two redirect flows of \<open>demo\<close> in progress.\<close>

definition media_two_flows :: media where
  "media_two_flows =
     empty_media(SessionM :=
       [(''msal.app.request.state.id1'', ''id1|redirect''),
        (''msal.app.authority.id1'', ''https://login.example/common''),
        (''msal.app.request.state.id2'', ''id2|redirect''),
        (''msal.app.authority.id2'', ''https://login.example/common''),
        (''msal.interaction.status'', ''app'')])"

text \<open>A page on which the lock is held by \<open>demo\<close> and a key of the request-state namespace
  holds a value that is no state blob.\<close>

definition media_garbage_state :: media where
  "media_garbage_state =
     empty_media(SessionM :=
       [(''msal.app.request.state.bad'', ''garbage''),
        (''msal.interaction.status'', ''app'')])"

section \<open>Basic facts about the storage operations\<close>

lemma getItem_setItem:
  "storage_getItem m (storage_setItem m' k v s) k' =
     (if m = m' \<and> k' = k then Some v else storage_getItem m s k')"
  by (simp add: storage_getItem_def storage_setItem_def update_conv')

lemma getItem_removeItem:
  "storage_getItem m (storage_removeItem m' k s) k' =
     (if m = m' \<and> k' = k then None else storage_getItem m s k')"
  by (simp add: storage_getItem_def storage_removeItem_def delete_conv')

lemma truthy_simps [simp]:
  "truthy None = False" "truthy (Some x) = (x \<noteq> [])"
  by (simp_all add: truthy_def)

lemma storage_media_distinct [simp]:
  "browserStorage this \<noteq> CookieM" "browserStorage this \<noteq> InternalM"
  "temporaryCacheStorage this \<noteq> CookieM" "temporaryCacheStorage this \<noteq> InternalM"
  "CookieM \<noteq> browserStorage this" "CookieM \<noteq> temporaryCacheStorage this"
  by (auto simp: browserStorage_def temporaryCacheStorage_def getStorageImplementation_def
      split: BrowserCacheLocation.splits)

lemma getTemporaryCache_truthy:
  "getTemporaryCache this k g s = Some v \<Longrightarrow> v \<noteq> []"
  by (auto simp: getTemporaryCache_def Let_def split: if_splits)

lemma getTemporaryCache_None_iff:
  "getTemporaryCache this key False s = None \<longleftrightarrow>
     \<not> (storeAuthStateInCookie this \<and> truthy (storage_getItem CookieM s key))
     \<and> \<not> truthy (storage_getItem (temporaryCacheStorage this) s key)
     \<and> \<not> (cacheLocation this = LocalStorage \<and> truthy (storage_getItem (browserStorage this) s key))"
  by (auto simp: getTemporaryCache_def Let_def truthy_def split: option.splits)

lemma demo_fields [simp]:
  "CACHE_PREFIX demo = ''msal''"
  "ACCOUNT_KEYS demo = ''msal.account.keys''"
  "TOKEN_KEYS demo = ''msal.token.keys''"
  "AUTHORITY demo = ''authority''"
  "NONCE_IDTOKEN demo = ''nonce.id_token''"
  "REQUEST_STATE demo = ''request.state''"
  "REQUEST_PARAMS demo = ''request.params''"
  "ORIGIN_URI demo = ''request.origin''"
  "URL_HASH demo = ''urlHash''"
  "CORRELATION_ID demo = ''request.correlationId''"
  "CCS_CREDENTIAL demo = ''ccs.credential''"
  "NATIVE_REQUEST demo = ''request.native''"
  "INTERACTION_STATUS_KEY demo = ''interaction.status''"
  "HOME_ACCOUNT_ID demo = ''home_account_id''"
  "UPN demo = ''UPN''"
  "JSON_parse demo = demo_parse"
  "JSON_stringify demo = demo_stringify"
  "base64Decode demo = Some"
  "parseRequestState demo = demo_parseRequestState"
  "extractBrowserRequestState demo = demo_extractBrowserRequestState"
  "isAccountEntity demo = (\<lambda>j. False)"
  "isIdTokenEntity demo = (\<lambda>j. False)"
  "isAccessTokenEntity demo = (\<lambda>j. False)"
  "isRefreshTokenEntity demo = (\<lambda>j. False)"
  "isAppMetadata demo = (\<lambda>k. startsWith k ''appmetadata'')"
  "credentialOfAccount demo = (\<lambda>k a. startsWith k a)"
  "localStorageSupported demo"
  "sessionStorageSupported demo"
  "clientId demo = ''app''"
  "cacheLocation demo = LocalStorage"
  "temporaryCacheLocation demo = SessionStorage"
  "\<not> storeAuthStateInCookie demo"
  by (simp_all add: demo_def)

lemma demo_other_fields [simp]:
  "CACHE_PREFIX demo_other = ''msal''"
  "ACCOUNT_KEYS demo_other = ''msal.account.keys''"
  "TOKEN_KEYS demo_other = ''msal.token.keys''"
  "AUTHORITY demo_other = ''authority''"
  "NONCE_IDTOKEN demo_other = ''nonce.id_token''"
  "REQUEST_STATE demo_other = ''request.state''"
  "REQUEST_PARAMS demo_other = ''request.params''"
  "ORIGIN_URI demo_other = ''request.origin''"
  "URL_HASH demo_other = ''urlHash''"
  "CORRELATION_ID demo_other = ''request.correlationId''"
  "CCS_CREDENTIAL demo_other = ''ccs.credential''"
  "NATIVE_REQUEST demo_other = ''request.native''"
  "INTERACTION_STATUS_KEY demo_other = ''interaction.status''"
  "HOME_ACCOUNT_ID demo_other = ''home_account_id''"
  "UPN demo_other = ''UPN''"
  "JSON_parse demo_other = demo_parse"
  "JSON_stringify demo_other = demo_stringify"
  "base64Decode demo_other = Some"
  "parseRequestState demo_other = demo_parseRequestState"
  "extractBrowserRequestState demo_other = demo_extractBrowserRequestState"
  "isAccountEntity demo_other = (\<lambda>j. False)"
  "isIdTokenEntity demo_other = (\<lambda>j. False)"
  "isAccessTokenEntity demo_other = (\<lambda>j. False)"
  "isRefreshTokenEntity demo_other = (\<lambda>j. False)"
  "isAppMetadata demo_other = (\<lambda>k. startsWith k ''appmetadata'')"
  "credentialOfAccount demo_other = (\<lambda>k a. startsWith k a)"
  "localStorageSupported demo_other"
  "sessionStorageSupported demo_other"
  "clientId demo_other = ''other''"
  "cacheLocation demo_other = LocalStorage"
  "temporaryCacheLocation demo_other = SessionStorage"
  "\<not> storeAuthStateInCookie demo_other"
  by (simp_all add: demo_other_def demo_def)

lemma demo_cookie_fields [simp]:
  "CACHE_PREFIX demo_cookie = ''msal''"
  "ACCOUNT_KEYS demo_cookie = ''msal.account.keys''"
  "TOKEN_KEYS demo_cookie = ''msal.token.keys''"
  "AUTHORITY demo_cookie = ''authority''"
  "NONCE_IDTOKEN demo_cookie = ''nonce.id_token''"
  "REQUEST_STATE demo_cookie = ''request.state''"
  "REQUEST_PARAMS demo_cookie = ''request.params''"
  "ORIGIN_URI demo_cookie = ''request.origin''"
  "URL_HASH demo_cookie = ''urlHash''"
  "CORRELATION_ID demo_cookie = ''request.correlationId''"
  "CCS_CREDENTIAL demo_cookie = ''ccs.credential''"
  "NATIVE_REQUEST demo_cookie = ''request.native''"
  "INTERACTION_STATUS_KEY demo_cookie = ''interaction.status''"
  "HOME_ACCOUNT_ID demo_cookie = ''home_account_id''"
  "UPN demo_cookie = ''UPN''"
  "JSON_parse demo_cookie = demo_parse"
  "JSON_stringify demo_cookie = demo_stringify"
  "base64Decode demo_cookie = Some"
  "parseRequestState demo_cookie = demo_parseRequestState"
  "extractBrowserRequestState demo_cookie = demo_extractBrowserRequestState"
  "isAccountEntity demo_cookie = (\<lambda>j. False)"
  "isIdTokenEntity demo_cookie = (\<lambda>j. False)"
  "isAccessTokenEntity demo_cookie = (\<lambda>j. False)"
  "isRefreshTokenEntity demo_cookie = (\<lambda>j. False)"
  "isAppMetadata demo_cookie = (\<lambda>k. startsWith k ''appmetadata'')"
  "credentialOfAccount demo_cookie = (\<lambda>k a. startsWith k a)"
  "localStorageSupported demo_cookie"
  "sessionStorageSupported demo_cookie"
  "clientId demo_cookie = ''app''"
  "cacheLocation demo_cookie = LocalStorage"
  "temporaryCacheLocation demo_cookie = SessionStorage"
  "storeAuthStateInCookie demo_cookie"
  by (simp_all add: demo_cookie_def demo_def)

lemma demo_storages [simp]:
  "browserStorage demo = LocalM" "temporaryCacheStorage demo = SessionM"
  "browserStorage demo_other = LocalM" "temporaryCacheStorage demo_other = SessionM"
  "browserStorage demo_cookie = LocalM" "temporaryCacheStorage demo_cookie = SessionM"
  "interactionStatusKey demo = ''msal.interaction.status''"
  "interactionStatusKey demo_other = ''msal.interaction.status''"
  "interactionStatusKey demo_cookie = ''msal.interaction.status''"
  by (simp_all add: browserStorage_def temporaryCacheStorage_def getStorageImplementation_def
      interactionStatusKey_def)

section \<open>The interaction lock\<close>

text \<open>
  Claim C2. The lock is read by \<open>getInteractionInProgress\<close>. Whenever that read gives a value,
  whoever the owner named by the value is, \<open>setInteractionInProgress true\<close> throws the
  interaction-in-progress error and changes nothing; when it gives none, the call stores
  this manager's client id under the lock key of the temporary storage.
  \<open>setInteractionInProgress false\<close> removes the lock entry when the value read is this
  manager's client id, and otherwise leaves the whole state as it is.
\<close>

theorem setInteractionInProgress_lock:
  "(getInteractionInProgress this s = Some owner \<longrightarrow>
      setInteractionInProgress this True s = (Inl (BrowserAuthError interactionInProgress), s))
   \<and> (getInteractionInProgress this s = None \<longrightarrow>
        fst (setInteractionInProgress this True s) = Inr ()
        \<and> storage_getItem (temporaryCacheStorage this)
            (snd (setInteractionInProgress this True s)) (interactionStatusKey this)
          = Some (clientId this))
   \<and> (getInteractionInProgress this s = Some (clientId this) \<longrightarrow>
        fst (setInteractionInProgress this False s) = Inr ()
        \<and> storage_getItem (temporaryCacheStorage this)
            (snd (setInteractionInProgress this False s)) (interactionStatusKey this)
          = None)
   \<and> (getInteractionInProgress this s \<noteq> Some (clientId this) \<longrightarrow>
        setInteractionInProgress this False s = (Inr (), s))"
proof -
  have held: "truthy (getInteractionInProgress this s)" if "getInteractionInProgress this s = Some owner"
    using that getTemporaryCache_truthy [of this "interactionStatusKey this" False s owner]
    by (simp add: getInteractionInProgress_def)
  show ?thesis
    using held
    by (auto simp: setInteractionInProgress_def Let_def setTemporaryCache_def
        removeTemporaryItem_def getItem_setItem getItem_removeItem)
qed

text \<open>Two managers on one page: \<open>demo\<close> takes the lock, \<open>demo_other\<close> is refused and cannot
  release it, \<open>demo\<close> releases it.\<close>

theorem setInteractionInProgress_lock_witness:
  "getInteractionInProgress demo empty_media = None
   \<and> storage_getItem SessionM (snd (setInteractionInProgress demo True empty_media))
       ''msal.interaction.status'' = Some ''app''
   \<and> getInteractionInProgress demo_other (snd (setInteractionInProgress demo True empty_media))
       = Some ''app''
   \<and> setInteractionInProgress demo_other True (snd (setInteractionInProgress demo True empty_media))
       = (Inl (BrowserAuthError interactionInProgress),
          snd (setInteractionInProgress demo True empty_media))
   \<and> setInteractionInProgress demo_other False (snd (setInteractionInProgress demo True empty_media))
       = (Inr (), snd (setInteractionInProgress demo True empty_media))
   \<and> storage_getItem SessionM
       (snd (setInteractionInProgress demo False
              (snd (setInteractionInProgress demo True empty_media))))
       ''msal.interaction.status'' = None"
proof -
  let ?s1 = "snd (setInteractionInProgress demo True empty_media)"
  have free: "getInteractionInProgress demo empty_media = None"
    by (simp add: getInteractionInProgress_def getTemporaryCache_def storage_getItem_def
        empty_media_def Let_def)
  have s1: "?s1 = empty_media(SessionM := [(''msal.interaction.status'', ''app'')])"
    using free
    by (simp add: setInteractionInProgress_def setTemporaryCache_def storage_setItem_def
        Let_def empty_media_def)
  have held_other: "getInteractionInProgress demo_other ?s1 = Some ''app''"
    unfolding s1
    by (simp add: getInteractionInProgress_def getTemporaryCache_def storage_getItem_def
        Let_def empty_media_def)
  have held: "getInteractionInProgress demo ?s1 = Some (clientId demo)"
    unfolding s1
    by (simp add: getInteractionInProgress_def getTemporaryCache_def storage_getItem_def
        Let_def empty_media_def)
  have not_owner: "getInteractionInProgress demo_other ?s1 \<noteq> Some (clientId demo_other)"
    by (simp add: held_other)
  show ?thesis
    using free held_other held not_owner
      setInteractionInProgress_lock [of demo empty_media]
      setInteractionInProgress_lock [of demo_other ?s1 "''app''"]
      setInteractionInProgress_lock [of demo ?s1]
    by simp
qed

lemma getTemporaryCache_removeTemporaryItem_None:
  "getTemporaryCache this k g s = None \<Longrightarrow>
   getTemporaryCache this k g (removeTemporaryItem this r s) = None"
  by (auto simp: getTemporaryCache_def removeTemporaryItem_def Let_def getItem_removeItem
      split: if_splits)

text \<open>
  Claim C10 as stated fails: with the cookie option on, a cookie value for the key, no value
  in the temporary storage and a value in the durable-cross-session storage, the read gives
  the cookie value and not the value of the persistent storage.
\<close>

theorem getTemporaryCache_fallback_counterexample:
  "storage_getItem (temporaryCacheStorage demo_cookie) media_cookie_and_legacy ''k'' = None
   \<and> cacheLocation demo_cookie = LocalStorage
   \<and> storage_getItem (browserStorage demo_cookie) media_cookie_and_legacy ''k'' = Some ''from-local''
   \<and> getTemporaryCache demo_cookie ''k'' False media_cookie_and_legacy \<noteq> Some ''from-local''"
  by (simp add: getTemporaryCache_def storage_getItem_def media_cookie_and_legacy_def
      empty_media_def Let_def)

text \<open>
  Claim C10, amended. The read follows an order. With the cookie option on and a non-empty
  cookie value for the key, the result is the cookie value, whatever the two storages hold.
  When no cookie value applies (option off, or no non-empty cookie value), the temporary
  storage holds no value or an empty one, and the persistent location is the
  durable-cross-session one, the result is the non-empty value the persistent storage holds
  under the same key.
\<close>

theorem getTemporaryCache_order:
  assumes "key = (if generateKey then generateCacheKey this cacheKey else cacheKey)"
  shows "(storeAuthStateInCookie this \<and> storage_getItem CookieM s key = Some c \<and> c \<noteq> []
            \<longrightarrow> getTemporaryCache this cacheKey generateKey s = Some c)
         \<and> (\<not> (storeAuthStateInCookie this \<and> truthy (storage_getItem CookieM s key))
            \<and> \<not> truthy (storage_getItem (temporaryCacheStorage this) s key)
            \<and> cacheLocation this = LocalStorage
            \<and> storage_getItem (browserStorage this) s key = Some p \<and> p \<noteq> []
            \<longrightarrow> getTemporaryCache this cacheKey generateKey s = Some p)"
  using assms by (auto simp: getTemporaryCache_def Let_def)

theorem getTemporaryCache_order_witness:
  "storeAuthStateInCookie demo_cookie
   \<and> storage_getItem CookieM media_cookie_and_legacy ''k'' = Some ''from-cookie''
   \<and> getTemporaryCache demo_cookie ''k'' False media_cookie_and_legacy = Some ''from-cookie''
   \<and> \<not> storeAuthStateInCookie demo
   \<and> storage_getItem (temporaryCacheStorage demo) media_legacy ''k'' = None
   \<and> cacheLocation demo = LocalStorage
   \<and> storage_getItem (browserStorage demo) media_legacy ''k'' = Some ''from-local''
   \<and> getTemporaryCache demo ''k'' False media_legacy = Some ''from-local''"
proof -
  have a: "storage_getItem CookieM media_cookie_and_legacy ''k'' = Some ''from-cookie''"
    by (simp add: storage_getItem_def media_cookie_and_legacy_def)
  have b: "storage_getItem (temporaryCacheStorage demo) media_legacy ''k'' = None"
    by (simp add: storage_getItem_def media_legacy_def empty_media_def)
  have c: "storage_getItem (browserStorage demo) media_legacy ''k'' = Some ''from-local''"
    by (simp add: storage_getItem_def media_legacy_def)
  show ?thesis
    using a b c
      getTemporaryCache_order [where key = "''k''" and generateKey = False and this = demo_cookie
        and cacheKey = "''k''" and s = media_cookie_and_legacy and c = "''from-cookie''"]
      getTemporaryCache_order [where key = "''k''" and generateKey = False and this = demo
        and cacheKey = "''k''" and s = media_legacy and p = "''from-local''"]
    by simp
qed

text \<open>
  Claim C8. \<open>getCachedRequest\<close> throws the no-token-request error when the cached request
  parameters are absent; it throws the unable-to-parse error when they are present and the
  base64 or the JSON decoding fails; and when the decoded request carries no authority it
  throws the no-cached-authority error if the authority cached for the state is absent as
  well (or the error of the state parser, when the state cannot be parsed). In each of these
  cases the call ends with an error, never with a result.
\<close>

theorem getCachedRequest_errors:
  "(getTemporaryCache this (REQUEST_PARAMS this) True s = None \<longrightarrow>
      getCachedRequest this state s = (Inl (BrowserAuthError noTokenRequestCacheError), s))
   \<and> (getTemporaryCache this (REQUEST_PARAMS this) True s = Some enc
      \<and> (base64Decode this enc = None
          \<or> (\<exists>d. base64Decode this enc = Some d \<and> JSON_parse this d = None)) \<longrightarrow>
      getCachedRequest this state s
        = (Inl (BrowserAuthError unableToParseTokenRequestCacheError), s))
   \<and> (getTemporaryCache this (REQUEST_PARAMS this) True s = Some enc
      \<and> base64Decode this enc = Some d \<and> JSON_parse this d = Some parsedRequest
      \<and> json_get parsedRequest ''authority'' = Inr authority \<and> \<not> json_truthy authority \<longrightarrow>
        (generateAuthorityKey this state = Inr authorityCacheKey
         \<and> getTemporaryCache this authorityCacheKey False s = None \<longrightarrow>
           fst (getCachedRequest this state s) = Inl (BrowserAuthError noCachedAuthorityError))
        \<and> (generateAuthorityKey this state = Inl err \<longrightarrow>
             fst (getCachedRequest this state s) = Inl err))"
  by (auto simp: getCachedRequest_def Let_def getTemporaryCache_removeTemporaryItem_None)

theorem getCachedRequest_errors_witness:
  "getTemporaryCache demo (REQUEST_PARAMS demo) True empty_media = None
   \<and> getCachedRequest demo ''id1|redirect'' empty_media
       = (Inl (BrowserAuthError noTokenRequestCacheError), empty_media)
   \<and> getTemporaryCache demo (REQUEST_PARAMS demo) True media_bad_request_params = Some ''not json''
   \<and> getCachedRequest demo ''id1|redirect'' media_bad_request_params
       = (Inl (BrowserAuthError unableToParseTokenRequestCacheError), media_bad_request_params)
   \<and> getTemporaryCache demo (REQUEST_PARAMS demo) True media_request_params = Some ''{}''
   \<and> fst (getCachedRequest demo ''id1|redirect'' media_request_params)
       = Inl (BrowserAuthError noCachedAuthorityError)
   \<and> fst (getCachedRequest demo [] media_request_params) = Inl (ClientAuthError invalidState)"
proof -
  have key: "generateCacheKey demo ''request.params'' = ''msal.app.request.params''"
    by (simp add: generateCacheKey_def validateAndParseJson_def demo_parse_def)
  have a: "getTemporaryCache demo (REQUEST_PARAMS demo) True empty_media = None"
    by (simp add: getTemporaryCache_def storage_getItem_def empty_media_def Let_def)
  have b: "getTemporaryCache demo (REQUEST_PARAMS demo) True media_bad_request_params
             = Some ''not json''"
    by (simp add: getTemporaryCache_def storage_getItem_def media_bad_request_params_def
        empty_media_def Let_def key)
  have c: "getTemporaryCache demo (REQUEST_PARAMS demo) True media_request_params = Some ''{}''"
    by (simp add: getTemporaryCache_def storage_getItem_def media_request_params_def
        empty_media_def Let_def key)
  have d: "JSON_parse demo ''not json'' = None" "JSON_parse demo ''{}'' = Some (JObj [])"
    by (simp_all add: demo_parse_def)
  have e: "generateAuthorityKey demo ''id1|redirect'' = Inr ''msal.app.authority.id1''"
    "generateAuthorityKey demo [] = Inl (ClientAuthError invalidState)"
    by (simp_all add: generateAuthorityKey_def demo_parseRequestState_def generateCacheKey_def
        validateAndParseJson_def demo_parse_def)
  have f: "getTemporaryCache demo ''msal.app.authority.id1'' False media_request_params = None"
    by (simp add: getTemporaryCache_def storage_getItem_def media_request_params_def
        empty_media_def Let_def)
  show ?thesis
    using a b c d e f
      getCachedRequest_errors [where this = demo and s = empty_media
        and state = "''id1|redirect''"]
      getCachedRequest_errors [where this = demo and s = media_bad_request_params
        and state = "''id1|redirect''" and enc = "''not json''"]
      getCachedRequest_errors [where this = demo and s = media_request_params
        and state = "''id1|redirect''" and enc = "''{}''" and d = "''{}''"
        and parsedRequest = "JObj []" and authority = None
        and authorityCacheKey = "''msal.app.authority.id1''"]
      getCachedRequest_errors [where this = demo and s = media_request_params
        and state = "[]" and enc = "''{}''" and d = "''{}''"
        and parsedRequest = "JObj []" and authority = None
        and err = "ClientAuthError invalidState"]
    by simp
qed

section \<open>Arrays and the JSON of the key indexes\<close>

lemma Array_indexOf_ge: "Array_indexOf xs x \<ge> -1"
  by (induction xs) (auto simp: Let_def)

lemma Array_indexOf_absent: "Array_indexOf xs x = -1 \<longleftrightarrow> x \<notin> set xs"
proof (induction xs)
  case Nil
  show ?case by simp
next
  case (Cons y ys)
  have "Array_indexOf ys x \<ge> -1" by (rule Array_indexOf_ge)
  with Cons show ?case by (auto simp: Let_def)
qed

lemma Array_indexOf_present: "Array_indexOf xs x > -1 \<longleftrightarrow> x \<in> set xs"
  using Array_indexOf_ge [of xs x] Array_indexOf_absent [of xs x] by linarith

lemma splice1_indexOf: "x \<in> set xs \<Longrightarrow> splice1 (Array_indexOf xs x) xs = remove1 x xs"
proof (induction xs)
  case Nil
  then show ?case by simp
next
  case (Cons y ys)
  show ?case
  proof (cases "y = x")
    case True
    then show ?thesis by (simp add: splice1_def)
  next
    case False
    with Cons.prems have mem: "x \<in> set ys" by simp
    then have pos: "Array_indexOf ys x \<ge> 0"
      using Array_indexOf_present [of ys x] by simp
    have "splice1 (Array_indexOf ys x + 1) (y # ys) = y # splice1 (Array_indexOf ys x) ys"
      using pos by (simp add: splice1_def nat_add_distrib)
    with False mem Cons.IH pos show ?thesis
      by (simp add: Let_def)
  qed
qed

lemma json_keys_keys_json [simp]: "json_keys (keys_json ks) = Some ks"
  by (induction ks) (simp_all add: keys_json_def)

lemma json_tokenKeys_tokenKeys_json [simp]: "json_tokenKeys (tokenKeys_json tk) = Some tk"
  by (simp add: tokenKeys_json_def)

lemma count_list_remove1_distinct: "count_list xs x \<le> 1 \<Longrightarrow> x \<notin> set (remove1 x xs)"
  by (induction xs) (auto simp: count_list_0_iff split: if_splits)

section \<open>Reading an index after writing it\<close>

lemma getAccountKeys_setItem_slot:
  "json_roundtrip this \<Longrightarrow>
   getAccountKeys this (storage_setItem (browserStorage this) (ACCOUNT_KEYS this)
     (JSON_stringify this (keys_json ks)) s) = ks"
  by (simp add: getAccountKeys_def getItem_setItem json_roundtrip_def)

lemma getTokenKeys_setItem_slot:
  "json_roundtrip this \<Longrightarrow>
   getTokenKeys this (storage_setItem (browserStorage this) (tokenKeysSlot this)
     (JSON_stringify this (tokenKeys_json tk)) s) = tk"
  by (simp add: getTokenKeys_def getItem_setItem json_roundtrip_def)

lemma getAccountKeys_removeAccountKeyFromMap:
  "json_roundtrip this \<Longrightarrow>
   getAccountKeys this (removeAccountKeyFromMap this key s) = remove1 key (getAccountKeys this s)"
  by (simp add: removeAccountKeyFromMap_def Let_def getAccountKeys_setItem_slot
      Array_indexOf_present splice1_indexOf remove1_idem)

lemma getAccountKeys_addAccountKeyToMap:
  "json_roundtrip this \<Longrightarrow>
   getAccountKeys this (addAccountKeyToMap this key s)
     = (if key \<in> set (getAccountKeys this s) then getAccountKeys this s
        else getAccountKeys this s @ [key])"
  by (simp add: addAccountKeyToMap_def Let_def getAccountKeys_setItem_slot Array_indexOf_absent)

lemma removeTokenKey_result:
  "type \<noteq> ACCESS_TOKEN_WITH_AUTH_SCHEME \<Longrightarrow>
   removeTokenKey this key type s =
     (Inr (), storage_setItem (browserStorage this) (tokenKeysSlot this)
        (JSON_stringify this (tokenKeys_json
           (case type of
              ID_TOKEN \<Rightarrow> (getTokenKeys this s)\<lparr>idToken := remove1 key (idToken (getTokenKeys this s))\<rparr>
            | ACCESS_TOKEN \<Rightarrow>
                (getTokenKeys this s)\<lparr>accessToken := remove1 key (accessToken (getTokenKeys this s))\<rparr>
            | _ \<Rightarrow>
                (getTokenKeys this s)\<lparr>refreshToken := remove1 key (refreshToken (getTokenKeys this s))\<rparr>))) s)"
  by (cases type)
     (simp_all add: removeTokenKey_def Let_def Array_indexOf_present splice1_indexOf remove1_idem)

lemma addTokenKey_result:
  "type \<noteq> ACCESS_TOKEN_WITH_AUTH_SCHEME \<Longrightarrow>
   addTokenKey this key type s =
     (Inr (), storage_setItem (browserStorage this) (tokenKeysSlot this)
        (JSON_stringify this (tokenKeys_json
           (case type of
              ID_TOKEN \<Rightarrow>
                (getTokenKeys this s)\<lparr>idToken :=
                   (if key \<in> set (idToken (getTokenKeys this s)) then idToken (getTokenKeys this s)
                    else idToken (getTokenKeys this s) @ [key])\<rparr>
            | ACCESS_TOKEN \<Rightarrow>
                (getTokenKeys this s)\<lparr>accessToken :=
                   (if key \<in> set (accessToken (getTokenKeys this s))
                    then accessToken (getTokenKeys this s)
                    else accessToken (getTokenKeys this s) @ [key])\<rparr>
            | _ \<Rightarrow>
                (getTokenKeys this s)\<lparr>refreshToken :=
                   (if key \<in> set (refreshToken (getTokenKeys this s))
                    then refreshToken (getTokenKeys this s)
                    else refreshToken (getTokenKeys this s) @ [key])\<rparr>))) s)"
  by (cases type) (simp_all add: addTokenKey_def Let_def Array_indexOf_absent)

lemma tokenIndex_removeTokenKey:
  "json_roundtrip this \<Longrightarrow> type \<noteq> ACCESS_TOKEN_WITH_AUTH_SCHEME \<Longrightarrow>
   tokenIndex type (getTokenKeys this (snd (removeTokenKey this key type s)))
     = remove1 key (tokenIndex type (getTokenKeys this s))"
  by (cases type) (simp_all add: removeTokenKey_result getTokenKeys_setItem_slot)

lemma tokenIndex_addTokenKey:
  "json_roundtrip this \<Longrightarrow> type \<noteq> ACCESS_TOKEN_WITH_AUTH_SCHEME \<Longrightarrow>
   tokenIndex type (getTokenKeys this (snd (addTokenKey this key type s)))
     = (if key \<in> set (tokenIndex type (getTokenKeys this s))
        then tokenIndex type (getTokenKeys this s)
        else tokenIndex type (getTokenKeys this s) @ [key])"
  by (cases type) (simp_all add: addTokenKey_result getTokenKeys_setItem_slot)

lemma setItem_same:
  "storage_getItem m s k = Some v \<Longrightarrow> storage_setItem m k v s = s"
  by (simp add: storage_getItem_def storage_setItem_def update_triv)

lemma removeItem_absent:
  "storage_getItem m s k = None \<Longrightarrow> storage_removeItem m k s = s"
  by (simp add: storage_getItem_def storage_removeItem_def map_of_eq_None_iff)

section \<open>The codec of the examples\<close>

lemma dec_keys_enc_key: "dec_keys (enc_key k @ rest) = map_option ((#) k) (dec_keys rest)"
proof (induction k)
  case Nil
  show ?case by (cases rest) (simp_all add: enc_key_def)
next
  case (Cons c k)
  have "enc_key (c # k) @ rest = CHR ''c'' # c # (enc_key k @ rest)"
    by (simp add: enc_key_def)
  with Cons show ?case
    by (cases "dec_keys rest") simp_all
qed

lemma dec_keys_enc_keys [simp]: "dec_keys (enc_keys ks) = Some ks"
proof (induction ks)
  case Nil
  show ?case by (simp add: enc_keys_def)
next
  case (Cons k ks)
  have "enc_keys (k # ks) = enc_key k @ enc_keys ks" by (simp add: enc_keys_def)
  with Cons show ?case by (simp add: dec_keys_enc_key)
qed

lemma untag_tagged [simp]:
  "untag t (map ((#) t) ks) = ks"
  "t \<noteq> u \<Longrightarrow> untag t (map ((#) u) ks) = []"
  "untag t (xs @ ys) = untag t xs @ untag t ys"
  by (induction ks) (simp_all add: untag_def)

lemma json_keys_tokenKeys_json [simp]: "json_keys (tokenKeys_json tk) = None"
  by (simp add: tokenKeys_json_def)

lemma json_roundtrip_demo [simp]:
  "json_roundtrip demo" "json_roundtrip demo_other" "json_roundtrip demo_cookie"
  by (simp_all add: json_roundtrip_def demo_stringify_def demo_parse_def)
     (simp_all add: tokenKeys_json_def)

lemma addTokenKey_present:
  "type \<noteq> ACCESS_TOKEN_WITH_AUTH_SCHEME \<Longrightarrow>
   key \<in> set (tokenIndex type (getTokenKeys this s)) \<Longrightarrow>
   storage_getItem (browserStorage this) s (tokenKeysSlot this)
     = Some (JSON_stringify this (tokenKeys_json (getTokenKeys this s))) \<Longrightarrow>
   addTokenKey this key type s = (Inr (), s)"
  by (cases type) (simp_all add: addTokenKey_def Let_def Array_indexOf_absent setItem_same)

text \<open>
  Claim C7. Adding a key twice is the same as adding it once: the second call leaves the
  whole state as the first one left it. When the index listed the key at most once before,
  it lists it exactly once afterwards. Starting without a token-key slot, two calls of
  \<open>addTokenKey\<close> with the same key and type leave exactly that key in the index of the type:
  for \<^verbatim>\<open>addTokenKey("k1", ACCESS_TOKEN)\<close> the access-token index is \<^verbatim>\<open>["k1"]\<close>.
\<close>

theorem addKey_idempotent:
  assumes "json_roundtrip this"
  shows "(type \<noteq> ACCESS_TOKEN_WITH_AUTH_SCHEME \<longrightarrow>
            fst (addTokenKey this key type s) = Inr ()
            \<and> addTokenKey this key type (snd (addTokenKey this key type s))
                = (Inr (), snd (addTokenKey this key type s))
            \<and> (count_list (tokenIndex type (getTokenKeys this s)) key \<le> 1 \<longrightarrow>
                 count_list (tokenIndex type
                   (getTokenKeys this (snd (addTokenKey this key type
                      (snd (addTokenKey this key type s)))))) key = 1)
            \<and> (storage_getItem (browserStorage this) s (tokenKeysSlot this) = None \<longrightarrow>
                 tokenIndex type
                   (getTokenKeys this (snd (addTokenKey this key type
                      (snd (addTokenKey this key type s))))) = [key]))
         \<and> addAccountKeyToMap this key (addAccountKeyToMap this key s)
             = addAccountKeyToMap this key s
         \<and> (count_list (getAccountKeys this s) key \<le> 1 \<longrightarrow>
              count_list (getAccountKeys this
                (addAccountKeyToMap this key (addAccountKeyToMap this key s))) key = 1)"
proof -
  let ?s1 = "snd (addTokenKey this key type s)"
  let ?a1 = "addAccountKeyToMap this key s"
  have acc_in: "key \<in> set (getAccountKeys this ?a1)"
    using assms by (simp add: getAccountKeys_addAccountKeyToMap)
  have acc_idem: "addAccountKeyToMap this key ?a1 = ?a1"
    using acc_in by (simp add: addAccountKeyToMap_def [of this key ?a1] Array_indexOf_absent)
  have acc_count: "count_list (getAccountKeys this ?a1) key = 1"
    if "count_list (getAccountKeys this s) key \<le> 1"
    using that assms count_list_0_iff [of "getAccountKeys this s" key]
    by (auto simp: getAccountKeys_addAccountKeyToMap)
  have tok: ?thesis if ty: "type \<noteq> ACCESS_TOKEN_WITH_AUTH_SCHEME"
  proof -
    have ok: "fst (addTokenKey this key type s) = Inr ()"
      using ty by (simp add: addTokenKey_result)
    have idx1: "tokenIndex type (getTokenKeys this ?s1)
                  = (if key \<in> set (tokenIndex type (getTokenKeys this s))
                     then tokenIndex type (getTokenKeys this s)
                     else tokenIndex type (getTokenKeys this s) @ [key])"
      using assms ty by (rule tokenIndex_addTokenKey)
    then have mem: "key \<in> set (tokenIndex type (getTokenKeys this ?s1))"
      by simp
    have slot1: "storage_getItem (browserStorage this) ?s1 (tokenKeysSlot this)
                   = Some (JSON_stringify this (tokenKeys_json (getTokenKeys this ?s1)))"
      using ty assms
      by (cases type) (simp_all add: addTokenKey_result getItem_setItem getTokenKeys_setItem_slot)
    have idem: "addTokenKey this key type ?s1 = (Inr (), ?s1)"
      using ty mem slot1 by (rule addTokenKey_present)
    have cnt: "count_list (tokenIndex type (getTokenKeys this ?s1)) key = 1"
      if "count_list (tokenIndex type (getTokenKeys this s)) key \<le> 1"
      using that count_list_0_iff [of "tokenIndex type (getTokenKeys this s)" key]
      by (auto simp: idx1)
    have fresh: "tokenIndex type (getTokenKeys this ?s1) = [key]"
      if "storage_getItem (browserStorage this) s (tokenKeysSlot this) = None"
    proof -
      from that have "getTokenKeys this s = \<lparr>idToken = [], accessToken = [], refreshToken = []\<rparr>"
        by (simp add: getTokenKeys_def)
      then have "tokenIndex type (getTokenKeys this s) = []"
        by (cases type) simp_all
      then show ?thesis by (simp add: idx1)
    qed
    show ?thesis
      using ok idem cnt fresh acc_idem acc_count by simp
  qed
  show ?thesis
  proof (cases "type = ACCESS_TOKEN_WITH_AUTH_SCHEME")
    case True
    then show ?thesis using acc_idem acc_count by simp
  next
    case False
    then show ?thesis by (rule tok)
  qed
qed

theorem addKey_idempotent_witness:
  "json_roundtrip demo
   \<and> storage_getItem (browserStorage demo) empty_media (tokenKeysSlot demo) = None
   \<and> count_list (getAccountKeys demo empty_media) ''K1'' \<le> 1
   \<and> accessToken (getTokenKeys demo
        (snd (addTokenKey demo ''k1'' ACCESS_TOKEN
           (snd (addTokenKey demo ''k1'' ACCESS_TOKEN empty_media))))) = [''k1'']
   \<and> count_list (getAccountKeys demo
        (addAccountKeyToMap demo ''K1'' (addAccountKeyToMap demo ''K1'' empty_media))) ''K1'' = 1"
proof -
  have a: "storage_getItem (browserStorage demo) empty_media (tokenKeysSlot demo) = None"
    by (simp add: storage_getItem_def empty_media_def)
  have b: "count_list (getAccountKeys demo empty_media) ''K1'' \<le> 1"
    by (simp add: getAccountKeys_def storage_getItem_def empty_media_def)
  have ty: "ACCESS_TOKEN \<noteq> ACCESS_TOKEN_WITH_AUTH_SCHEME"
    by simp
  have rt: "json_roundtrip demo"
    by simp
  have c: "tokenIndex ACCESS_TOKEN (getTokenKeys demo
             (snd (addTokenKey demo ''k1'' ACCESS_TOKEN
                (snd (addTokenKey demo ''k1'' ACCESS_TOKEN empty_media))))) = [''k1'']"
    using addKey_idempotent [OF rt, where type = ACCESS_TOKEN and key = "''k1''"
        and s = empty_media] ty a
    by blast
  have d: "count_list (getAccountKeys demo
             (addAccountKeyToMap demo ''K1'' (addAccountKeyToMap demo ''K1'' empty_media))) ''K1'' = 1"
    using addKey_idempotent [OF rt, where type = ACCESS_TOKEN and key = "''K1''"
        and s = empty_media] b
    by blast
  show ?thesis
    using rt a b c d by simp
qed

section \<open>Self-healing reads\<close>

lemma unusable_cases:
  "unusable this isEntity (storage_getUserData m s key) \<longleftrightarrow>
     \<not> truthy (storage_getUserData m s key)
     \<or> validateAndParseJson this (the (storage_getUserData m s key)) = None
     \<or> (\<exists>j. validateAndParseJson this (the (storage_getUserData m s key)) = Some j
              \<and> \<not> isEntity j)"
  by (auto simp: unusable_def validateAndParseJson_def truthy_def split: option.splits)

lemma getAccount_unusable:
  "unusable this (isAccountEntity this) (storage_getUserData (browserStorage this) s key) \<Longrightarrow>
   getAccount this key s = (None, removeAccountKeyFromMap this key s)"
  by (auto simp: unusable_cases getAccount_def Let_def)

lemma getIdTokenCredential_unusable:
  "unusable this (isIdTokenEntity this) (storage_getUserData (browserStorage this) s key) \<Longrightarrow>
   getIdTokenCredential this key s = (Inr None, snd (removeTokenKey this key ID_TOKEN s))"
  by (auto simp: unusable_cases getIdTokenCredential_def Let_def removeTokenKey_result)

lemma getAccessTokenCredential_unusable:
  "unusable this (isAccessTokenEntity this) (storage_getUserData (browserStorage this) s key) \<Longrightarrow>
   getAccessTokenCredential this key s = (Inr None, snd (removeTokenKey this key ACCESS_TOKEN s))"
  by (auto simp: unusable_cases getAccessTokenCredential_def Let_def removeTokenKey_result)

lemma getRefreshTokenCredential_unusable:
  "unusable this (isRefreshTokenEntity this) (storage_getUserData (browserStorage this) s key) \<Longrightarrow>
   getRefreshTokenCredential this key s = (Inr None, snd (removeTokenKey this key REFRESH_TOKEN s))"
  by (auto simp: unusable_cases getRefreshTokenCredential_def Let_def removeTokenKey_result)

text \<open>
  Claim C1. When the value read under \<open>key\<close> is absent, does not decode as a JSON object, or
  lacks what the shape check of its category asks for, the getter returns absent without
  throwing, and the first occurrence of \<open>key\<close> is taken out of the index of the category:
  the index read afterwards is the former one without it, so an index without duplicates
  no longer lists \<open>key\<close>.
\<close>

theorem getters_self_heal:
  assumes "json_roundtrip this"
  shows "(unusable this (isAccountEntity this) (storage_getUserData (browserStorage this) s key)
            \<longrightarrow> fst (getAccount this key s) = None
                \<and> getAccountKeys this (snd (getAccount this key s))
                    = remove1 key (getAccountKeys this s)
                \<and> (distinct (getAccountKeys this s)
                    \<longrightarrow> key \<notin> set (getAccountKeys this (snd (getAccount this key s)))))
         \<and> (unusable this (isIdTokenEntity this) (storage_getUserData (browserStorage this) s key)
            \<longrightarrow> fst (getIdTokenCredential this key s) = Inr None
                \<and> idToken (getTokenKeys this (snd (getIdTokenCredential this key s)))
                    = remove1 key (idToken (getTokenKeys this s))
                \<and> (distinct (idToken (getTokenKeys this s))
                    \<longrightarrow> key \<notin> set (idToken (getTokenKeys this
                                             (snd (getIdTokenCredential this key s))))))
         \<and> (unusable this (isAccessTokenEntity this) (storage_getUserData (browserStorage this) s key)
            \<longrightarrow> fst (getAccessTokenCredential this key s) = Inr None
                \<and> accessToken (getTokenKeys this (snd (getAccessTokenCredential this key s)))
                    = remove1 key (accessToken (getTokenKeys this s))
                \<and> (distinct (accessToken (getTokenKeys this s))
                    \<longrightarrow> key \<notin> set (accessToken (getTokenKeys this
                                             (snd (getAccessTokenCredential this key s))))))
         \<and> (unusable this (isRefreshTokenEntity this) (storage_getUserData (browserStorage this) s key)
            \<longrightarrow> fst (getRefreshTokenCredential this key s) = Inr None
                \<and> refreshToken (getTokenKeys this (snd (getRefreshTokenCredential this key s)))
                    = remove1 key (refreshToken (getTokenKeys this s))
                \<and> (distinct (refreshToken (getTokenKeys this s))
                    \<longrightarrow> key \<notin> set (refreshToken (getTokenKeys this
                                             (snd (getRefreshTokenCredential this key s))))))"
proof -
  have acc: "getAccountKeys this (removeAccountKeyFromMap this key s)
               = remove1 key (getAccountKeys this s)"
    using assms by (rule getAccountKeys_removeAccountKeyFromMap)
  have tok: "tokenIndex type (getTokenKeys this (snd (removeTokenKey this key type s)))
               = remove1 key (tokenIndex type (getTokenKeys this s))"
    if "type \<noteq> ACCESS_TOKEN_WITH_AUTH_SCHEME" for type
    using assms that by (rule tokenIndex_removeTokenKey)
  show ?thesis
    using acc tok [of ID_TOKEN] tok [of ACCESS_TOKEN] tok [of REFRESH_TOKEN]
    by (simp add: getAccount_unusable getIdTokenCredential_unusable
        getAccessTokenCredential_unusable getRefreshTokenCredential_unusable)
qed


lemma demo_index_reads:
  "getAccountKeys demo media_stale_index = [''K1'', ''K2'']"
  "getTokenKeys demo media_stale_index
     = \<lparr>idToken = [''i1''], accessToken = [''a1'', ''a2''], refreshToken = [''r1'']\<rparr>"
  "storage_getUserData LocalM media_stale_index ''K1'' = None"
  "storage_getUserData LocalM media_stale_index ''K2'' = Some ''not json''"
  "storage_getUserData LocalM media_stale_index ''a1'' = Some ''{}''"
  "storage_getUserData LocalM media_stale_index ''i1'' = None"
  "storage_getUserData LocalM media_stale_index ''r1'' = None"
proof -
  have rt: "\<And>ks. demo_parse (demo_stringify (keys_json ks)) = Some (keys_json ks)"
    "\<And>tk. demo_parse (demo_stringify (tokenKeys_json tk)) = Some (tokenKeys_json tk)"
    using json_roundtrip_demo(1) by (simp_all add: json_roundtrip_def)
  show "getAccountKeys demo media_stale_index = [''K1'', ''K2'']"
    by (simp add: getAccountKeys_def storage_getItem_def media_stale_index_def rt)
  show "getTokenKeys demo media_stale_index
     = \<lparr>idToken = [''i1''], accessToken = [''a1'', ''a2''], refreshToken = [''r1'']\<rparr>"
    by (simp add: getTokenKeys_def storage_getItem_def media_stale_index_def tokenKeysSlot_def rt)
  show "storage_getUserData LocalM media_stale_index ''K1'' = None"
    "storage_getUserData LocalM media_stale_index ''K2'' = Some ''not json''"
    "storage_getUserData LocalM media_stale_index ''a1'' = Some ''{}''"
    "storage_getUserData LocalM media_stale_index ''i1'' = None"
    "storage_getUserData LocalM media_stale_index ''r1'' = None"
    by (simp_all add: storage_getUserData_def storage_getItem_def media_stale_index_def
        empty_media_def)
qed

theorem getters_self_heal_witness:
  "json_roundtrip demo
   \<and> unusable demo (isAccountEntity demo)
       (storage_getUserData (browserStorage demo) media_stale_index ''K2'')
   \<and> distinct (getAccountKeys demo media_stale_index)
   \<and> fst (getAccount demo ''K2'' media_stale_index) = None
   \<and> getAccountKeys demo (snd (getAccount demo ''K2'' media_stale_index)) = [''K1'']
   \<and> unusable demo (isIdTokenEntity demo)
       (storage_getUserData (browserStorage demo) media_stale_index ''i1'')
   \<and> fst (getIdTokenCredential demo ''i1'' media_stale_index) = Inr None
   \<and> idToken (getTokenKeys demo (snd (getIdTokenCredential demo ''i1'' media_stale_index))) = []
   \<and> unusable demo (isAccessTokenEntity demo)
       (storage_getUserData (browserStorage demo) media_stale_index ''a1'')
   \<and> fst (getAccessTokenCredential demo ''a1'' media_stale_index) = Inr None
   \<and> accessToken (getTokenKeys demo (snd (getAccessTokenCredential demo ''a1'' media_stale_index)))
       = [''a2'']
   \<and> unusable demo (isRefreshTokenEntity demo)
       (storage_getUserData (browserStorage demo) media_stale_index ''r1'')
   \<and> fst (getRefreshTokenCredential demo ''r1'' media_stale_index) = Inr None
   \<and> refreshToken (getTokenKeys demo (snd (getRefreshTokenCredential demo ''r1'' media_stale_index)))
       = []"
proof -
  have rt: "json_roundtrip demo"
    by simp
  have u: "unusable demo (isAccountEntity demo)
             (storage_getUserData (browserStorage demo) media_stale_index ''K2'')"
    "unusable demo (isIdTokenEntity demo)
       (storage_getUserData (browserStorage demo) media_stale_index ''i1'')"
    "unusable demo (isAccessTokenEntity demo)
       (storage_getUserData (browserStorage demo) media_stale_index ''a1'')"
    "unusable demo (isRefreshTokenEntity demo)
       (storage_getUserData (browserStorage demo) media_stale_index ''r1'')"
    by (simp_all add: unusable_def demo_index_reads demo_parse_def split: option.splits)
  show ?thesis
    using rt u
      getters_self_heal [OF rt, where s = media_stale_index and key = "''K2''"]
      getters_self_heal [OF rt, where s = media_stale_index and key = "''i1''"]
      getters_self_heal [OF rt, where s = media_stale_index and key = "''a1''"]
      getters_self_heal [OF rt, where s = media_stale_index and key = "''r1''"]
    by (simp add: demo_index_reads)
qed

section \<open>Removals\<close>

lemma removeAccountKeyFromMap_absent:
  "key \<notin> set (getAccountKeys this s) \<Longrightarrow> removeAccountKeyFromMap this key s = s"
  using Array_indexOf_present [of "getAccountKeys this s" key]
  by (simp add: removeAccountKeyFromMap_def Let_def)

lemma removeTokenKey_absent:
  "type \<noteq> ACCESS_TOKEN_WITH_AUTH_SCHEME \<Longrightarrow>
   key \<notin> set (tokenIndex type (getTokenKeys this s)) \<Longrightarrow>
   storage_getItem (browserStorage this) s (tokenKeysSlot this)
     = Some (JSON_stringify this (tokenKeys_json (getTokenKeys this s))) \<Longrightarrow>
   removeTokenKey this key type s = (Inr (), s)"
  by (cases type) (simp_all add: removeTokenKey_result remove1_idem setItem_same)

lemma getAccountKeys_removeItem:
  "getAccountKeys this (removeItem this key s)
     = (if key = ACCOUNT_KEYS this then [] else getAccountKeys this s)"
  by (simp add: getAccountKeys_def removeItem_def getItem_removeItem)

lemma getTokenKeys_removeItem:
  "key \<noteq> tokenKeysSlot this \<Longrightarrow> getTokenKeys this (removeItem this key s) = getTokenKeys this s"
  by (simp add: getTokenKeys_def removeItem_def getItem_removeItem)

lemma removeAccount_store:
  "storage_getItem (browserStorage this) (removeAccount this key s) key = None"
proof (cases "key \<in> set (getAccountKeys this (removeItem this key s))")
  case True
  then have "key \<noteq> ACCOUNT_KEYS this"
    by (auto simp: getAccountKeys_removeItem split: if_splits)
  then show ?thesis
    by (simp add: removeAccount_def CacheManager_removeAccount_def removeAccountKeyFromMap_def
        Let_def getItem_setItem)
       (simp add: removeItem_def getItem_removeItem)
next
  case False
  then show ?thesis
    by (simp add: removeAccount_def CacheManager_removeAccount_def
        removeAccountKeyFromMap_absent)
       (simp add: removeItem_def getItem_removeItem)
qed

lemma removeAccount_index:
  assumes "json_roundtrip this" "distinct (getAccountKeys this s)"
  shows "key \<notin> set (getAccountKeys this (removeAccount this key s))"
proof -
  have "getAccountKeys this (removeAccount this key s)
          = remove1 key (getAccountKeys this (removeItem this key s))"
    using assms(1)
    by (simp add: removeAccount_def CacheManager_removeAccount_def
        getAccountKeys_removeAccountKeyFromMap)
  with assms(2) show ?thesis
    by (simp add: getAccountKeys_removeItem)
qed

lemma removeAccount_twice:
  assumes "json_roundtrip this" "distinct (getAccountKeys this s)"
  shows "removeAccount this key (removeAccount this key s) = removeAccount this key s"
proof -
  let ?s' = "removeAccount this key s"
  have "removeItem this key ?s' = ?s'"
    unfolding removeItem_def by (rule removeItem_absent) (rule removeAccount_store)
  moreover have "removeAccountKeyFromMap this key ?s' = ?s'"
    using assms by (intro removeAccountKeyFromMap_absent removeAccount_index)
  ultimately show ?thesis
    by (simp add: removeAccount_def [of this key ?s'] CacheManager_removeAccount_def)
qed

lemma removeToken_generic:
  fixes s :: media
  assumes rt: "json_roundtrip this"
    and ty: "type \<noteq> ACCESS_TOKEN_WITH_AUTH_SCHEME"
    and slot: "key \<noteq> tokenKeysSlot this"
  defines "r \<equiv> removeTokenKey this key type (removeItem this key s)"
  shows "fst r = Inr ()"
    and "storage_getItem (browserStorage this) (snd r) key = None"
    and "tokenIndex type (getTokenKeys this (snd r)) = remove1 key (tokenIndex type (getTokenKeys this s))"
    and "distinct (tokenIndex type (getTokenKeys this s)) \<Longrightarrow>
         removeTokenKey this key type (removeItem this key (snd r)) = (Inr (), snd r)"
proof -
  show ok: "fst r = Inr ()"
    using ty by (simp add: r_def removeTokenKey_result)
  show gone: "storage_getItem (browserStorage this) (snd r) key = None"
    using ty slot
    by (simp add: r_def removeTokenKey_result getItem_setItem)
       (simp add: removeItem_def getItem_removeItem)
  show idx: "tokenIndex type (getTokenKeys this (snd r))
               = remove1 key (tokenIndex type (getTokenKeys this s))"
    using rt ty slot
    by (simp add: r_def tokenIndex_removeTokenKey getTokenKeys_removeItem)
  show "removeTokenKey this key type (removeItem this key (snd r)) = (Inr (), snd r)"
    if d: "distinct (tokenIndex type (getTokenKeys this s))"
  proof -
    have same: "removeItem this key (snd r) = snd r"
      unfolding removeItem_def using gone by (rule removeItem_absent)
    have notin: "key \<notin> set (tokenIndex type (getTokenKeys this (snd r)))"
      using d by (simp add: idx)
    have held: "storage_getItem (browserStorage this) (snd r) (tokenKeysSlot this)
                  = Some (JSON_stringify this (tokenKeys_json (getTokenKeys this (snd r))))"
      using rt ty
      by (cases type)
         (simp_all add: r_def removeTokenKey_result getItem_setItem getTokenKeys_setItem_slot)
    show ?thesis
      using ty notin held by (simp add: same removeTokenKey_absent)
  qed
qed

text \<open>
  Claim C6. After \<open>removeAccount\<close> the key has no value in the backing store; with an account
  index without duplicates the index no longer lists the key and a second removal changes
  nothing. For a credential key (any key other than the slot that holds the token index
  itself), \<open>removeIdToken\<close>, \<open>removeAccessToken\<close> and \<open>removeRefreshToken\<close> return without
  error, the key has no value in the backing store, and with an index of the category
  without duplicates the index no longer lists the key and a second removal returns
  without error and changes nothing.
\<close>

theorem removal_complete:
  assumes "json_roundtrip this"
  shows "storage_getItem (browserStorage this) (removeAccount this key s) key = None
         \<and> (distinct (getAccountKeys this s) \<longrightarrow>
              key \<notin> set (getAccountKeys this (removeAccount this key s))
              \<and> removeAccount this key (removeAccount this key s) = removeAccount this key s)
         \<and> (key \<noteq> tokenKeysSlot this \<longrightarrow>
              fst (removeIdToken this key s) = Inr ()
              \<and> storage_getItem (browserStorage this) (snd (removeIdToken this key s)) key = None
              \<and> (distinct (idToken (getTokenKeys this s)) \<longrightarrow>
                   key \<notin> set (idToken (getTokenKeys this (snd (removeIdToken this key s))))
                   \<and> removeIdToken this key (snd (removeIdToken this key s))
                       = (Inr (), snd (removeIdToken this key s)))
              \<and> fst (removeAccessToken this key s) = Inr ()
              \<and> storage_getItem (browserStorage this) (snd (removeAccessToken this key s)) key = None
              \<and> (distinct (accessToken (getTokenKeys this s)) \<longrightarrow>
                   key \<notin> set (accessToken (getTokenKeys this (snd (removeAccessToken this key s))))
                   \<and> removeAccessToken this key (snd (removeAccessToken this key s))
                       = (Inr (), snd (removeAccessToken this key s)))
              \<and> fst (removeRefreshToken this key s) = Inr ()
              \<and> storage_getItem (browserStorage this) (snd (removeRefreshToken this key s)) key = None
              \<and> (distinct (refreshToken (getTokenKeys this s)) \<longrightarrow>
                   key \<notin> set (refreshToken (getTokenKeys this (snd (removeRefreshToken this key s))))
                   \<and> removeRefreshToken this key (snd (removeRefreshToken this key s))
                       = (Inr (), snd (removeRefreshToken this key s))))"
proof -
  have tok: "fst (removeTokenKey this key type (removeItem this key s)) = Inr ()
             \<and> storage_getItem (browserStorage this)
                 (snd (removeTokenKey this key type (removeItem this key s))) key = None
             \<and> (distinct (tokenIndex type (getTokenKeys this s)) \<longrightarrow>
                  key \<notin> set (tokenIndex type (getTokenKeys this
                                 (snd (removeTokenKey this key type (removeItem this key s)))))
                  \<and> removeTokenKey this key type
                      (removeItem this key (snd (removeTokenKey this key type (removeItem this key s))))
                      = (Inr (), snd (removeTokenKey this key type (removeItem this key s))))"
    if "type \<noteq> ACCESS_TOKEN_WITH_AUTH_SCHEME" "key \<noteq> tokenKeysSlot this" for type
    using removeToken_generic [OF assms that, of s] by simp
  show ?thesis
    using removeAccount_store [of this key s] removeAccount_index [OF assms, of s key]
      removeAccount_twice [OF assms, of s key]
      tok [of ID_TOKEN] tok [of ACCESS_TOKEN] tok [of REFRESH_TOKEN]
    by (simp add: removeIdToken_def removeAccessToken_def removeRefreshToken_def
        CacheManager_removeIdToken_def CacheManager_removeAccessToken_def
        CacheManager_removeRefreshToken_def)
qed

theorem removal_complete_witness:
  "json_roundtrip demo
   \<and> distinct (getAccountKeys demo media_stale_index)
   \<and> ''a1'' \<noteq> tokenKeysSlot demo
   \<and> distinct (accessToken (getTokenKeys demo media_stale_index))
   \<and> storage_getItem (browserStorage demo) (removeAccount demo ''K2'' media_stale_index) ''K2'' = None
   \<and> ''K2'' \<notin> set (getAccountKeys demo (removeAccount demo ''K2'' media_stale_index))
   \<and> removeAccount demo ''K2'' (removeAccount demo ''K2'' media_stale_index)
       = removeAccount demo ''K2'' media_stale_index
   \<and> storage_getItem (browserStorage demo)
       (snd (removeAccessToken demo ''a1'' media_stale_index)) ''a1'' = None
   \<and> ''a1'' \<notin> set (accessToken (getTokenKeys demo
                       (snd (removeAccessToken demo ''a1'' media_stale_index))))
   \<and> removeAccessToken demo ''a1'' (snd (removeAccessToken demo ''a1'' media_stale_index))
       = (Inr (), snd (removeAccessToken demo ''a1'' media_stale_index))"
proof -
  have rt: "json_roundtrip demo"
    by simp
  have slot: "''a1'' \<noteq> tokenKeysSlot demo"
    by (simp add: tokenKeysSlot_def)
  have d: "distinct (getAccountKeys demo media_stale_index)"
    "distinct (accessToken (getTokenKeys demo media_stale_index))"
    by (simp_all add: demo_index_reads)
  show ?thesis
    using rt slot d
      removal_complete [OF rt, where key = "''K2''" and s = media_stale_index]
      removal_complete [OF rt, where key = "''a1''" and s = media_stale_index]
    by simp
qed

section \<open>Removing temporary items\<close>

lemma getItem_removeTemporaryItem:
  "storage_getItem m (removeTemporaryItem this r s) key =
     (if key = r \<and> temporaryMedium this m then None else storage_getItem m s key)"
  by (auto simp: removeTemporaryItem_def temporaryMedium_def Let_def getItem_removeItem)

lemma getItem_fold_removeTemporaryItem:
  "storage_getItem m (fold (removeTemporaryItem this) rs s) key =
     (if key \<in> set rs \<and> temporaryMedium this m then None else storage_getItem m s key)"
  by (induction rs arbitrary: s) (auto simp: getItem_removeTemporaryItem)

lemma fold_conditional:
  "fold (\<lambda>x acc. if P x then f x acc else acc) xs s = fold f (filter P xs) s"
  by (induction xs arbitrary: s) simp_all

lemma getItem_setInteractionInProgress_False:
  "storage_getItem m (snd (setInteractionInProgress this False s)) key =
     (if key = interactionStatusKey this \<and> temporaryMedium this m
         \<and> getInteractionInProgress this s = Some (clientId this)
      then None else storage_getItem m s key)"
  by (simp add: setInteractionInProgress_def Let_def getItem_removeTemporaryItem)

lemma fst_setInteractionInProgress_False [simp]:
  "fst (setInteractionInProgress this False s) = Inr ()"
  by (simp add: setInteractionInProgress_def Let_def)

lemma getTemporaryCache_cong_media:
  assumes "\<And>m. storage_getItem m s' key = storage_getItem m s key"
  shows "getTemporaryCache this key False s' = getTemporaryCache this key False s"
  by (simp add: getTemporaryCache_def Let_def assms)

lemma resetRequestCache_steps:
  assumes "state \<noteq> []" "parseRequestState this state = Inr stateId"
  shows "resetRequestCache this state s =
           setInteractionInProgress this False
             (fold (removeTemporaryItem this)
                (filter (\<lambda>key. indexOf key state \<noteq> -1)
                   (storage_getKeys (temporaryCacheStorage this) s)
                 @ derivedRequestKeys this stateId @ genericRequestKeys this) s)"
  using assms
  by (simp add: resetRequestCache_def Let_def generateStateKey_def generateNonceKey_def
      generateAuthorityKey_def fold_conditional derivedRequestKeys_def genericRequestKeys_def)

lemma resetRequestCache_empty_state:
  "resetRequestCache this [] s =
     setInteractionInProgress this False (fold (removeTemporaryItem this) (genericRequestKeys this) s)"
  by (simp add: resetRequestCache_def Let_def genericRequestKeys_def)

lemma getKeys_iff: "key \<in> set (storage_getKeys m s) \<longleftrightarrow> storage_getItem m s key \<noteq> None"
  by (simp add: storage_getKeys_def storage_getItem_def map_of_eq_None_iff)

text \<open>The state in which \<open>resetRequestCache\<close> releases the lock, read key by key.\<close>

lemma resetRequestCache_before_release:
  fixes s :: media
  assumes "state \<noteq> []" "parseRequestState this state = Inr stateId"
  defines "s10 \<equiv> fold (removeTemporaryItem this)
                    (filter (\<lambda>key. indexOf key state \<noteq> -1)
                       (storage_getKeys (temporaryCacheStorage this) s)
                     @ derivedRequestKeys this stateId @ genericRequestKeys this) s"
  shows "resetRequestCache this state s = setInteractionInProgress this False s10"
    and "storage_getItem m s10 key =
           (if temporaryMedium this m
               \<and> (indexOf key state \<noteq> -1 \<and> key \<in> set (storage_getKeys (temporaryCacheStorage this) s)
                  \<or> key \<in> set (derivedRequestKeys this stateId)
                  \<or> key \<in> set (genericRequestKeys this))
            then None else storage_getItem m s key)"
  using assms(1,2)
  by (auto simp: s10_def resetRequestCache_steps getItem_fold_removeTemporaryItem)

lemma resetRequestCache_removed:
  assumes "state \<noteq> []" "parseRequestState this state = Inr stateId"
    and "indexOf key state \<noteq> -1 \<or> key \<in> set (derivedRequestKeys this stateId)
         \<or> key \<in> set (genericRequestKeys this)"
  shows "storage_getItem (temporaryCacheStorage this) (snd (resetRequestCache this state s)) key = None"
proof -
  have "storage_getItem (temporaryCacheStorage this) s key = None"
    if "key \<notin> set (storage_getKeys (temporaryCacheStorage this) s)"
    using that by (simp add: getKeys_iff)
  then show ?thesis
    using assms
    by (auto simp: resetRequestCache_steps getItem_setInteractionInProgress_False
        getItem_fold_removeTemporaryItem temporaryMedium_def)
qed

lemma resetRequestCache_frame:
  assumes "state \<noteq> []" "parseRequestState this state = Inr stateId"
    and "indexOf key state = -1" "key \<notin> set (derivedRequestKeys this stateId)"
    and "key \<notin> set (genericRequestKeys this)" "key \<noteq> interactionStatusKey this"
  shows "storage_getItem m (snd (resetRequestCache this state s)) key = storage_getItem m s key"
  using assms
  by (simp add: resetRequestCache_steps getItem_setInteractionInProgress_False
      getItem_fold_removeTemporaryItem)

lemma resetRequestCache_other_media:
  assumes "\<not> temporaryMedium this m"
  shows "storage_getItem m (snd (resetRequestCache this state s)) key = storage_getItem m s key"
proof -
  have step: "storage_getItem m (removeTemporaryItem this r s') key = storage_getItem m s' key"
    for r s'
    using assms by (simp add: getItem_removeTemporaryItem)
  have rel: "storage_getItem m (snd (setInteractionInProgress this False s')) key
               = storage_getItem m s' key" for s'
    using assms by (simp add: getItem_setInteractionInProgress_False)
  have scan: "storage_getItem m (fold (removeTemporaryItem this) rs s') key = storage_getItem m s' key"
    for rs s'
    using assms by (simp add: getItem_fold_removeTemporaryItem)
  show ?thesis
    by (auto simp: resetRequestCache_def Let_def fold_conditional step rel scan
        split: sum.splits)
qed

lemma resetRequestCache_lock:
  assumes "state \<noteq> []" "parseRequestState this state = Inr stateId"
    and "getInteractionInProgress this s = Some (clientId this)"
  shows "storage_getItem (temporaryCacheStorage this) (snd (resetRequestCache this state s))
           (interactionStatusKey this) = None"
proof -
  define rs where "rs = filter (\<lambda>key. indexOf key state \<noteq> -1)
                          (storage_getKeys (temporaryCacheStorage this) s)
                        @ derivedRequestKeys this stateId @ genericRequestKeys this"
  define s10 where "s10 = fold (removeTemporaryItem this) rs s"
  have reset: "resetRequestCache this state s = setInteractionInProgress this False s10"
    using assms(1,2) unfolding s10_def rs_def by (rule resetRequestCache_steps)
  have read: "storage_getItem m s10 key =
                (if key \<in> set rs \<and> temporaryMedium this m then None else storage_getItem m s key)"
    for m key
    unfolding s10_def by (rule getItem_fold_removeTemporaryItem)
  show ?thesis
  proof (cases "interactionStatusKey this \<in> set rs")
    case True
    then show ?thesis
      by (simp add: reset getItem_setInteractionInProgress_False read temporaryMedium_def)
  next
    case False
    then have "\<And>m. storage_getItem m s10 (interactionStatusKey this)
                 = storage_getItem m s (interactionStatusKey this)"
      by (simp add: read)
    then have "getInteractionInProgress this s10 = getInteractionInProgress this s"
      unfolding getInteractionInProgress_def by (rule getTemporaryCache_cong_media)
    with assms(3) show ?thesis
      by (simp add: reset getItem_setInteractionInProgress_False temporaryMedium_def)
  qed
qed


lemma demo_keys [simp]:
  "derivedRequestKeys demo ''id1''
     = [''msal.app.request.state.id1'', ''msal.app.nonce.id_token.id1'', ''msal.app.authority.id1'']"
  "genericRequestKeys demo
     = [''msal.app.request.params'', ''msal.app.request.origin'', ''msal.app.urlHash'',
        ''msal.app.request.correlationId'', ''msal.app.ccs.credential'',
        ''msal.app.request.native'']"
  "demo_parseRequestState ''id1|redirect'' = Inr ''id1''"
  by (simp_all add: derivedRequestKeys_def genericRequestKeys_def generateCacheKey_def
      validateAndParseJson_def demo_parse_def demo_parseRequestState_def)

text \<open>
  Claim C4 as stated fails: the scan compares each temporary key with the whole state
  string, not with the request id inside it. A temporary key that contains the request id
  and is not one of the derived keys stays.
\<close>

theorem resetRequestCache_request_id_counterexample:
  "parseRequestState demo ''id1|redirect'' = Inr ''id1''
   \<and> indexOf ''custom.id1'' ''id1'' \<noteq> -1
   \<and> storage_getItem (temporaryCacheStorage demo) media_flow ''custom.id1'' = Some ''v''
   \<and> fst (resetRequestCache demo ''id1|redirect'' media_flow) = Inr ()
   \<and> storage_getItem (temporaryCacheStorage demo)
       (snd (resetRequestCache demo ''id1|redirect'' media_flow)) ''custom.id1'' = Some ''v''"
proof -
  have here: "storage_getItem (temporaryCacheStorage demo) media_flow ''custom.id1'' = Some ''v''"
    by (simp add: storage_getItem_def media_flow_def)
  have "storage_getItem (temporaryCacheStorage demo)
          (snd (resetRequestCache demo ''id1|redirect'' media_flow)) ''custom.id1''
        = storage_getItem (temporaryCacheStorage demo) media_flow ''custom.id1''"
    by (rule resetRequestCache_frame [where stateId = "''id1''"]) (simp_all add: Let_def)
  with here show ?thesis
    by (simp add: resetRequestCache_steps [where stateId = "''id1''"] Let_def)
qed

text \<open>
  Claim C4, amended. For a non-empty state that the state parser accepts, \<open>resetRequestCache\<close>
  returns without error. It first removes every key of the temporary storage that contains
  the whole state string, then the three keys derived from the request id and the six
  generic keys of a flow, and its last step is \<open>setInteractionInProgress false\<close> on the state
  reached so. In the result none of these keys has a value in the temporary storage; the
  lock entry is gone when the lock read at the start was this manager's client id; every
  other key keeps its value in every storage.
\<close>

theorem resetRequestCache_removes:
  assumes "state \<noteq> []" "parseRequestState this state = Inr stateId"
  shows "(\<exists>s10. resetRequestCache this state s = setInteractionInProgress this False s10
           \<and> (\<forall>m key. storage_getItem m s10 key =
                 (if temporaryMedium this m
                     \<and> (indexOf key state \<noteq> -1
                          \<and> key \<in> set (storage_getKeys (temporaryCacheStorage this) s)
                        \<or> key \<in> set (derivedRequestKeys this stateId)
                        \<or> key \<in> set (genericRequestKeys this))
                  then None else storage_getItem m s key)))
         \<and> fst (resetRequestCache this state s) = Inr ()
         \<and> (\<forall>key. indexOf key state \<noteq> -1 \<or> key \<in> set (derivedRequestKeys this stateId)
                   \<or> key \<in> set (genericRequestKeys this) \<longrightarrow>
                storage_getItem (temporaryCacheStorage this)
                  (snd (resetRequestCache this state s)) key = None)
         \<and> (getInteractionInProgress this s = Some (clientId this) \<longrightarrow>
                storage_getItem (temporaryCacheStorage this)
                  (snd (resetRequestCache this state s)) (interactionStatusKey this) = None)
         \<and> (\<forall>m key. indexOf key state = -1 \<and> key \<notin> set (derivedRequestKeys this stateId)
                     \<and> key \<notin> set (genericRequestKeys this) \<and> key \<noteq> interactionStatusKey this \<longrightarrow>
                storage_getItem m (snd (resetRequestCache this state s)) key
                  = storage_getItem m s key)"
proof (intro conjI allI impI)
  show "\<exists>s10. resetRequestCache this state s = setInteractionInProgress this False s10
           \<and> (\<forall>m key. storage_getItem m s10 key =
                 (if temporaryMedium this m
                     \<and> (indexOf key state \<noteq> -1
                          \<and> key \<in> set (storage_getKeys (temporaryCacheStorage this) s)
                        \<or> key \<in> set (derivedRequestKeys this stateId)
                        \<or> key \<in> set (genericRequestKeys this))
                  then None else storage_getItem m s key))"
    using resetRequestCache_before_release [OF assms] by blast
  show "fst (resetRequestCache this state s) = Inr ()"
    using assms by (simp add: resetRequestCache_steps)
  show "storage_getItem (temporaryCacheStorage this) (snd (resetRequestCache this state s)) key = None"
    if "indexOf key state \<noteq> -1 \<or> key \<in> set (derivedRequestKeys this stateId)
        \<or> key \<in> set (genericRequestKeys this)" for key
    using assms that by (rule resetRequestCache_removed)
  show "storage_getItem (temporaryCacheStorage this) (snd (resetRequestCache this state s))
          (interactionStatusKey this) = None"
    if "getInteractionInProgress this s = Some (clientId this)"
    using assms that by (rule resetRequestCache_lock)
  show "storage_getItem m (snd (resetRequestCache this state s)) key = storage_getItem m s key"
    if "indexOf key state = -1 \<and> key \<notin> set (derivedRequestKeys this stateId)
        \<and> key \<notin> set (genericRequestKeys this) \<and> key \<noteq> interactionStatusKey this" for m key
    using assms that by (simp add: resetRequestCache_frame)
qed

theorem resetRequestCache_removes_witness:
  "''id1|redirect'' \<noteq> [] \<and> parseRequestState demo ''id1|redirect'' = Inr ''id1''
   \<and> getInteractionInProgress demo media_flow = Some (clientId demo)
   \<and> fst (resetRequestCache demo ''id1|redirect'' media_flow) = Inr ()
   \<and> storage_getItem SessionM (snd (resetRequestCache demo ''id1|redirect'' media_flow))
       ''old.id1|redirect'' = None
   \<and> storage_getItem SessionM (snd (resetRequestCache demo ''id1|redirect'' media_flow))
       ''msal.app.request.state.id1'' = None
   \<and> storage_getItem SessionM (snd (resetRequestCache demo ''id1|redirect'' media_flow))
       ''msal.app.nonce.id_token.id1'' = None
   \<and> storage_getItem SessionM (snd (resetRequestCache demo ''id1|redirect'' media_flow))
       ''msal.app.authority.id1'' = None
   \<and> storage_getItem SessionM (snd (resetRequestCache demo ''id1|redirect'' media_flow))
       ''msal.app.request.params'' = None
   \<and> storage_getItem SessionM (snd (resetRequestCache demo ''id1|redirect'' media_flow))
       ''msal.interaction.status'' = None"
proof -
  have ne: "''id1|redirect'' \<noteq> []"
    by simp
  have p: "parseRequestState demo ''id1|redirect'' = Inr ''id1''"
    by simp
  have lock: "getInteractionInProgress demo media_flow = Some (clientId demo)"
    by (simp add: getInteractionInProgress_def getTemporaryCache_def storage_getItem_def
        media_flow_def Let_def)
  have sub: "indexOf ''old.id1|redirect'' ''id1|redirect'' \<noteq> -1"
    by (simp add: Let_def)
  note t = resetRequestCache_removes [OF ne p, of media_flow]
  from t have gone: "\<And>key. indexOf key ''id1|redirect'' \<noteq> -1
        \<or> key \<in> set (derivedRequestKeys demo ''id1'') \<or> key \<in> set (genericRequestKeys demo) \<Longrightarrow>
      storage_getItem (temporaryCacheStorage demo)
        (snd (resetRequestCache demo ''id1|redirect'' media_flow)) key = None"
    by blast
  from t lock have released: "storage_getItem (temporaryCacheStorage demo)
        (snd (resetRequestCache demo ''id1|redirect'' media_flow)) (interactionStatusKey demo) = None"
    by blast
  from t have ok: "fst (resetRequestCache demo ''id1|redirect'' media_flow) = Inr ()"
    by blast
  show ?thesis
    using p lock ok released gone [of "''old.id1|redirect''"]
      gone [of "''msal.app.request.state.id1''"] gone [of "''msal.app.nonce.id_token.id1''"]
      gone [of "''msal.app.authority.id1''"] gone [of "''msal.app.request.params''"] sub
    by simp
qed

section \<open>Flow-correlation entries\<close>

lemma getItem_setTemporaryCache_other:
  "\<not> temporaryMedium this m \<Longrightarrow>
   storage_getItem m (setTemporaryCache this cacheKey v generateKey s) key = storage_getItem m s key"
  by (auto simp: setTemporaryCache_def temporaryMedium_def Let_def getItem_setItem)

lemma updateCacheEntries_ok:
  "parseRequestState this state = Inr stateId \<Longrightarrow>
   fst (updateCacheEntries this state nonce authorityInstance loginHint account s) = Inr ()"
  by (simp add: updateCacheEntries_def generateStateKey_def generateNonceKey_def
      generateAuthorityKey_def Let_def split: option.splits)

lemma updateCacheEntries_other_media:
  "\<not> temporaryMedium this m \<Longrightarrow>
   storage_getItem m (snd (updateCacheEntries this state nonce authorityInstance loginHint account s)) key
     = storage_getItem m s key"
  by (simp add: updateCacheEntries_def Let_def getItem_setTemporaryCache_other
      split: sum.splits option.splits)

lemma updateCacheEntries_stored:
  assumes "parseRequestState this state = Inr stateId"
    and "distinct (derivedRequestKeys this stateId)"
    and "generateCacheKey this (CCS_CREDENTIAL this) \<notin> set (derivedRequestKeys this stateId)"
  shows "map (storage_getItem (temporaryCacheStorage this)
                (snd (updateCacheEntries this state nonce authorityInstance loginHint account s)))
           (derivedRequestKeys this stateId)
         = [Some state, Some nonce, Some authorityInstance]"
  using assms
  by (auto simp: updateCacheEntries_def generateStateKey_def generateNonceKey_def
      generateAuthorityKey_def Let_def derivedRequestKeys_def setTemporaryCache_def
      getItem_setItem split: option.splits)

lemma resetRequestCache_removed_named:
  assumes "state \<noteq> []" "parseRequestState this state = Inr stateId"
    and "key \<in> set (derivedRequestKeys this stateId) \<or> key \<in> set (genericRequestKeys this)"
    and "temporaryMedium this m"
  shows "storage_getItem m (snd (resetRequestCache this state s)) key = None"
  using assms
  by (auto simp: resetRequestCache_steps getItem_setInteractionInProgress_False
      getItem_fold_removeTemporaryItem)

lemma getCachedAuthority_after_reset:
  assumes ne: "state \<noteq> []" and p: "parseRequestState this state = Inr stateId"
    and upd: "\<And>m key. \<not> temporaryMedium this m \<Longrightarrow> storage_getItem m s1 key = storage_getItem m s key"
  defines "stateKey \<equiv> generateCacheKey this (REQUEST_STATE this @ ''.'' @ stateId)"
  defines "s2 \<equiv> snd (resetRequestCache this state s1)"
  shows "getCachedAuthority this state s2 =
           (if cacheLocation this = LocalStorage
               \<and> browserStorage this \<noteq> temporaryCacheStorage this
               \<and> truthy (storage_getItem (browserStorage this) s stateKey)
            then (case generateAuthorityKey this (the (storage_getItem (browserStorage this) s stateKey)) of
                    Inl err \<Rightarrow> Inl err
                  | Inr authorityCacheKey \<Rightarrow> Inr (getTemporaryCache this authorityCacheKey False s2))
            else Inr None)"
proof -
  have key: "stateKey \<in> set (derivedRequestKeys this stateId)"
    by (simp add: stateKey_def derivedRequestKeys_def)
  have gone: "storage_getItem m s2 stateKey = None" if "temporaryMedium this m" for m
    unfolding s2_def by (rule resetRequestCache_removed_named [OF ne p _ that]) (simp add: key)
  have temp: "storage_getItem (temporaryCacheStorage this) s2 stateKey = None"
    by (rule gone) (simp add: temporaryMedium_def)
  have cookie: "storeAuthStateInCookie this \<Longrightarrow> storage_getItem CookieM s2 stateKey = None"
    by (rule gone) (simp add: temporaryMedium_def)
  have browser: "storage_getItem (browserStorage this) s2 stateKey
                   = (if browserStorage this = temporaryCacheStorage this then None
                      else storage_getItem (browserStorage this) s stateKey)"
  proof (cases "browserStorage this = temporaryCacheStorage this")
    case True
    then show ?thesis using temp by simp
  next
    case False
    then have nt: "\<not> temporaryMedium this (browserStorage this)"
      by (simp add: temporaryMedium_def)
    then have "storage_getItem (browserStorage this) s2 stateKey
                 = storage_getItem (browserStorage this) s1 stateKey"
      unfolding s2_def by (rule resetRequestCache_other_media)
    with False nt show ?thesis by (simp add: upd)
  qed
  have read: "getTemporaryCache this stateKey False s2 =
                (if cacheLocation this = LocalStorage
                    \<and> browserStorage this \<noteq> temporaryCacheStorage this
                    \<and> truthy (storage_getItem (browserStorage this) s stateKey)
                 then storage_getItem (browserStorage this) s stateKey else None)"
    using temp cookie browser by (auto simp: getTemporaryCache_def Let_def)
  have gsk: "generateStateKey this state = Inr stateKey"
    using p by (simp add: generateStateKey_def stateKey_def)
  show ?thesis
    unfolding getCachedAuthority_def gsk
    by (auto simp: read truthy_def split: option.splits)
qed

text \<open>
  Claim C3 as stated fails: with the durable-cross-session storage as persistent location
  and another medium for the temporary scope, the read of the cached state falls back to
  the persistent storage, so entries left there under the same keys still answer
  \<open>getCachedAuthority\<close> after the temporary entries are gone.
\<close>

theorem getCachedAuthority_legacy_counterexample:
  "fst (updateCacheEntries demo ''id1|redirect'' ''nonce'' ''https://login.example/common'' [] None
          media_legacy_flow) = Inr ()
   \<and> fst (resetRequestCache demo ''id1|redirect''
            (snd (updateCacheEntries demo ''id1|redirect'' ''nonce''
                    ''https://login.example/common'' [] None media_legacy_flow))) = Inr ()
   \<and> getCachedAuthority demo ''id1|redirect''
       (snd (resetRequestCache demo ''id1|redirect''
               (snd (updateCacheEntries demo ''id1|redirect'' ''nonce''
                       ''https://login.example/common'' [] None media_legacy_flow))))
       = Inr (Some ''https://legacy.example'')"
proof -
  let ?s1 = "snd (updateCacheEntries demo ''id1|redirect'' ''nonce''
                    ''https://login.example/common'' [] None media_legacy_flow)"
  let ?s2 = "snd (resetRequestCache demo ''id1|redirect'' ?s1)"
  have p: "parseRequestState demo ''id1|redirect'' = Inr ''id1''"
    by simp
  have local: "storage_getItem LocalM ?s2 key = storage_getItem LocalM media_legacy_flow key" for key
    by (simp add: resetRequestCache_other_media updateCacheEntries_other_media temporaryMedium_def)
  have session: "storage_getItem SessionM ?s2 ''msal.app.authority.id1'' = None"
    by (rule resetRequestCache_removed_named [where stateId = "''id1''"])
       (simp_all add: temporaryMedium_def)
  have auth: "getTemporaryCache demo ''msal.app.authority.id1'' False ?s2
                = Some ''https://legacy.example''"
    by (simp add: getTemporaryCache_def Let_def session local)
       (simp add: storage_getItem_def media_legacy_flow_def)
  have "getCachedAuthority demo ''id1|redirect'' ?s2
          = (if cacheLocation demo = LocalStorage
                \<and> browserStorage demo \<noteq> temporaryCacheStorage demo
                \<and> truthy (storage_getItem (browserStorage demo) media_legacy_flow
                            (generateCacheKey demo (REQUEST_STATE demo @ ''.'' @ ''id1'')))
             then (case generateAuthorityKey demo
                          (the (storage_getItem (browserStorage demo) media_legacy_flow
                                  (generateCacheKey demo (REQUEST_STATE demo @ ''.'' @ ''id1'')))) of
                     Inl err \<Rightarrow> Inl err
                   | Inr authorityCacheKey \<Rightarrow> Inr (getTemporaryCache demo authorityCacheKey False ?s2))
             else Inr None)"
    by (rule getCachedAuthority_after_reset) (simp_all add: updateCacheEntries_other_media)
  also have "\<dots> = Inr (Some ''https://legacy.example'')"
    using auth
    by (simp add: generateCacheKey_def validateAndParseJson_def demo_parse_def
        storage_getItem_def media_legacy_flow_def generateAuthorityKey_def)
  finally show ?thesis
    by (simp add: updateCacheEntries_ok [where stateId = "''id1''"]
        resetRequestCache_steps [where stateId = "''id1''"])
qed


text \<open>
  Claim C3, amended. For a non-empty state that the state parser accepts, \<open>updateCacheEntries\<close>
  followed by \<open>resetRequestCache\<close> both return without error; the state, the nonce and the
  authority were stored under the three derived keys (when these are three different keys,
  none of them the routing-hint key) and have no value in the temporary storage afterwards;
  and \<open>getCachedAuthority\<close> then returns absent, unless the persistent location is the
  durable-cross-session one, on another medium than the temporary storage, and that storage
  held a non-empty value under the derived state key from the start.
\<close>

theorem flow_correlation_cleanup:
  assumes "state \<noteq> []" "parseRequestState this state = Inr stateId"
  shows "(let r1 = updateCacheEntries this state nonce authorityInstance loginHint account s;
              r2 = resetRequestCache this state (snd r1)
          in fst r1 = Inr () \<and> fst r2 = Inr ()
             \<and> (distinct (derivedRequestKeys this stateId)
                 \<and> generateCacheKey this (CCS_CREDENTIAL this) \<notin> set (derivedRequestKeys this stateId)
                 \<longrightarrow> map (storage_getItem (temporaryCacheStorage this) (snd r1))
                       (derivedRequestKeys this stateId)
                     = [Some state, Some nonce, Some authorityInstance])
             \<and> (\<forall>key \<in> set (derivedRequestKeys this stateId).
                   storage_getItem (temporaryCacheStorage this) (snd r2) key = None)
             \<and> (\<not> (cacheLocation this = LocalStorage
                    \<and> browserStorage this \<noteq> temporaryCacheStorage this
                    \<and> truthy (storage_getItem (browserStorage this) s
                                (generateCacheKey this (REQUEST_STATE this @ ''.'' @ stateId))))
                 \<longrightarrow> getCachedAuthority this state (snd r2) = Inr None))"
proof -
  let ?r1 = "updateCacheEntries this state nonce authorityInstance loginHint account s"
  let ?r2 = "resetRequestCache this state (snd ?r1)"
  have a: "fst ?r1 = Inr ()"
    using assms(2) by (rule updateCacheEntries_ok)
  have b: "fst ?r2 = Inr ()"
    using assms by (simp add: resetRequestCache_steps)
  have c: "map (storage_getItem (temporaryCacheStorage this) (snd ?r1))
             (derivedRequestKeys this stateId) = [Some state, Some nonce, Some authorityInstance]"
    if "distinct (derivedRequestKeys this stateId)"
       "generateCacheKey this (CCS_CREDENTIAL this) \<notin> set (derivedRequestKeys this stateId)"
    using assms(2) that by (rule updateCacheEntries_stored)
  have d: "storage_getItem (temporaryCacheStorage this) (snd ?r2) key = None"
    if "key \<in> set (derivedRequestKeys this stateId)" for key
    by (rule resetRequestCache_removed [OF assms]) (simp add: that)
  have e: "getCachedAuthority this state (snd ?r2) = Inr None"
    if "\<not> (cacheLocation this = LocalStorage
            \<and> browserStorage this \<noteq> temporaryCacheStorage this
            \<and> truthy (storage_getItem (browserStorage this) s
                        (generateCacheKey this (REQUEST_STATE this @ ''.'' @ stateId))))"
  proof -
    have eq: "getCachedAuthority this state (snd ?r2) =
           (if cacheLocation this = LocalStorage
               \<and> browserStorage this \<noteq> temporaryCacheStorage this
               \<and> truthy (storage_getItem (browserStorage this) s
                           (generateCacheKey this (REQUEST_STATE this @ ''.'' @ stateId)))
            then (case generateAuthorityKey this
                         (the (storage_getItem (browserStorage this) s
                                 (generateCacheKey this (REQUEST_STATE this @ ''.'' @ stateId)))) of
                    Inl err \<Rightarrow> Inl err
                  | Inr authorityCacheKey \<Rightarrow>
                      Inr (getTemporaryCache this authorityCacheKey False (snd ?r2)))
            else Inr None)"
      by (rule getCachedAuthority_after_reset [OF assms])
         (simp add: updateCacheEntries_other_media)
    show ?thesis
      unfolding eq by (rule if_not_P [OF that])
  qed
  show ?thesis
    unfolding Let_def using a b c d e by blast
qed

theorem flow_correlation_cleanup_witness:
  "''id1|redirect'' \<noteq> [] \<and> parseRequestState demo ''id1|redirect'' = Inr ''id1''
   \<and> \<not> truthy (storage_getItem (browserStorage demo) empty_media
                 (generateCacheKey demo (REQUEST_STATE demo @ ''.'' @ ''id1'')))
   \<and> map (storage_getItem (temporaryCacheStorage demo)
            (snd (updateCacheEntries demo ''id1|redirect'' ''n1'' ''https://login.example/common''
                    ''user@example'' None empty_media)))
       (derivedRequestKeys demo ''id1'')
     = [Some ''id1|redirect'', Some ''n1'', Some ''https://login.example/common'']
   \<and> map (storage_getItem (temporaryCacheStorage demo)
            (snd (resetRequestCache demo ''id1|redirect''
               (snd (updateCacheEntries demo ''id1|redirect'' ''n1''
                       ''https://login.example/common'' ''user@example'' None empty_media)))))
       (derivedRequestKeys demo ''id1'')
     = [None, None, None]
   \<and> getCachedAuthority demo ''id1|redirect''
       (snd (resetRequestCache demo ''id1|redirect''
          (snd (updateCacheEntries demo ''id1|redirect'' ''n1''
                  ''https://login.example/common'' ''user@example'' None empty_media))))
     = Inr None"
proof -
  have ne: "''id1|redirect'' \<noteq> []"
    by simp
  have p: "parseRequestState demo ''id1|redirect'' = Inr ''id1''"
    by simp
  have free: "\<not> truthy (storage_getItem (browserStorage demo) empty_media
                 (generateCacheKey demo (REQUEST_STATE demo @ ''.'' @ ''id1'')))"
    by (simp add: storage_getItem_def empty_media_def)
  have keys: "distinct (derivedRequestKeys demo ''id1'')"
    "generateCacheKey demo (CCS_CREDENTIAL demo) \<notin> set (derivedRequestKeys demo ''id1'')"
    by (simp_all add: generateCacheKey_def validateAndParseJson_def demo_parse_def)
  show ?thesis
    using p free keys
      flow_correlation_cleanup [OF ne p, where nonce = "''n1''"
        and authorityInstance = "''https://login.example/common''"
        and loginHint = "''user@example''" and account = None and s = empty_media]
    by (simp add: Let_def)
qed

section \<open>Cleaning by interaction type\<close>

lemma onlyRemoved_refl: "onlyRemoved this s s"
  by (simp add: onlyRemoved_def)

lemma onlyRemoved_trans:
  assumes "onlyRemoved this s s'" "onlyRemoved this s' s''"
  shows "onlyRemoved this s s''"
  unfolding onlyRemoved_def
proof
  fix key
  from assms(1) have a: "(\<forall>m. storage_getItem m s' key = storage_getItem m s key)
            \<or> ((\<forall>m. temporaryMedium this m \<longrightarrow> storage_getItem m s' key = None)
               \<and> (\<forall>m. \<not> temporaryMedium this m \<longrightarrow>
                        storage_getItem m s' key = storage_getItem m s key))"
    by (simp add: onlyRemoved_def)
  from assms(2) have b: "(\<forall>m. storage_getItem m s'' key = storage_getItem m s' key)
            \<or> ((\<forall>m. temporaryMedium this m \<longrightarrow> storage_getItem m s'' key = None)
               \<and> (\<forall>m. \<not> temporaryMedium this m \<longrightarrow>
                        storage_getItem m s'' key = storage_getItem m s' key))"
    by (simp add: onlyRemoved_def)
  from a b show "(\<forall>m. storage_getItem m s'' key = storage_getItem m s key)
            \<or> ((\<forall>m. temporaryMedium this m \<longrightarrow> storage_getItem m s'' key = None)
               \<and> (\<forall>m. \<not> temporaryMedium this m \<longrightarrow>
                        storage_getItem m s'' key = storage_getItem m s key))"
    by metis
qed

lemma onlyRemoved_fold: "onlyRemoved this s (fold (removeTemporaryItem this) rs s)"
  by (simp add: onlyRemoved_def getItem_fold_removeTemporaryItem)

lemma onlyRemoved_removeTemporaryItem: "onlyRemoved this s (removeTemporaryItem this r s)"
  by (simp add: onlyRemoved_def getItem_removeTemporaryItem)

lemma onlyRemoved_release:
  "onlyRemoved this s (snd (setInteractionInProgress this False s))"
  by (simp add: setInteractionInProgress_def Let_def onlyRemoved_refl
      onlyRemoved_removeTemporaryItem)

lemma onlyRemoved_reset:
  assumes "state \<noteq> []" "parseRequestState this state = Inr stateId"
  shows "onlyRemoved this s (snd (resetRequestCache this state s))"
  unfolding resetRequestCache_steps [OF assms]
  by (rule onlyRemoved_trans [OF onlyRemoved_fold onlyRemoved_release])

lemma onlyRemoved_temporary:
  "onlyRemoved this s s' \<Longrightarrow> storage_getItem (temporaryCacheStorage this) s' key = Some v \<Longrightarrow>
   storage_getItem (temporaryCacheStorage this) s key = Some v"
  unfolding onlyRemoved_def temporaryMedium_def by (metis option.distinct(1))

lemma onlyRemoved_lock:
  assumes "onlyRemoved this s s'" "getInteractionInProgress this s = Some (clientId this)"
  shows "getInteractionInProgress this s' = Some (clientId this)
         \<or> storage_getItem (temporaryCacheStorage this) s' (interactionStatusKey this) = None"
proof -
  from assms(1) consider
      (same) "\<forall>m. storage_getItem m s' (interactionStatusKey this)
                    = storage_getItem m s (interactionStatusKey this)"
    | (gone) "\<forall>m. temporaryMedium this m \<longrightarrow> storage_getItem m s' (interactionStatusKey this) = None"
    unfolding onlyRemoved_def by blast
  then show ?thesis
  proof cases
    case same
    then have "getInteractionInProgress this s' = getInteractionInProgress this s"
      unfolding getInteractionInProgress_def by (intro getTemporaryCache_cong_media) simp
    with assms(2) show ?thesis by simp
  next
    case gone
    then show ?thesis by (simp add: temporaryMedium_def)
  qed
qed

lemma forEach_invariant:
  assumes "\<And>key acc. key \<in> set keys \<Longrightarrow> Inv acc \<Longrightarrow>
             fst (f key acc) = Inr () \<and> Inv (snd (f key acc))"
    and "Inv s"
  shows "fst (forEach f keys s) = Inr () \<and> Inv (snd (forEach f keys s))"
  using assms
proof (induction keys arbitrary: s)
  case Nil
  then show ?case by simp
next
  case (Cons key keys)
  from Cons.prems have here: "fst (f key s) = Inr ()" "Inv (snd (f key s))"
    by simp_all
  have "fst (forEach f keys (snd (f key s))) = Inr () \<and> Inv (snd (forEach f keys (snd (f key s))))"
    using Cons.prems(1) here(2) by (intro Cons.IH) simp_all
  with here(1) show ?case
    by (cases "f key s") (simp split: sum.splits)
qed

lemma cleanRequestByInteractionType_loop:
  assumes "requestStatesDecodable this interactionType s"
  defines "body \<equiv> (\<lambda>key acc.
                if indexOf key (REQUEST_STATE this) = -1 then (Inr (), acc)
                else
                  (let stateValue = storage_getItem (temporaryCacheStorage this) acc key
                   in if \<not> truthy stateValue then (Inr (), acc)
                      else
                        (case extractBrowserRequestState this (the stateValue) of
                           Inl err \<Rightarrow> (Inl err, acc)
                         | Inr parsedState \<Rightarrow>
                             if parsedState = Some interactionType
                             then resetRequestCache this (the stateValue) acc
                             else (Inr (), acc))))"
  shows "fst (forEach body keys s) = Inr () \<and> onlyRemoved this s (snd (forEach body keys s))"
proof (rule forEach_invariant)
  show "onlyRemoved this s s" by (rule onlyRemoved_refl)
next
  fix key acc
  assume inv: "onlyRemoved this s acc"
  show "fst (body key acc) = Inr () \<and> onlyRemoved this s (snd (body key acc))"
  proof (cases "indexOf key (REQUEST_STATE this) \<noteq> -1
                \<and> truthy (storage_getItem (temporaryCacheStorage this) acc key)")
    case False
    then show ?thesis using inv by (auto simp: body_def Let_def)
  next
    case True
    then obtain v where v: "storage_getItem (temporaryCacheStorage this) acc key = Some v" "v \<noteq> []"
      by (auto simp: truthy_def split: option.splits)
    with inv have "storage_getItem (temporaryCacheStorage this) s key = Some v"
      by (simp add: onlyRemoved_temporary)
    with assms(1) v(2) True obtain parsedState
      where ex: "extractBrowserRequestState this v = Inr parsedState"
        and ps: "parsedState = Some interactionType \<longrightarrow> (\<exists>stateId. parseRequestState this v = Inr stateId)"
      unfolding requestStatesDecodable_def by blast
    show ?thesis
    proof (cases "parsedState = Some interactionType")
      case False
      with True v ex inv show ?thesis by (simp add: body_def Let_def)
    next
      case match: True
      with ps obtain stateId where p: "parseRequestState this v = Inr stateId"
        by blast
      have b: "body key acc = resetRequestCache this v acc"
        using True v ex match by (simp add: body_def Let_def)
      have "fst (resetRequestCache this v acc) = Inr ()"
        using v(2) p by (simp add: resetRequestCache_steps)
      moreover have "onlyRemoved this s (snd (resetRequestCache this v acc))"
        using inv onlyRemoved_reset [OF v(2) p] by (rule onlyRemoved_trans)
      ultimately show ?thesis by (simp add: b)
    qed
  qed
qed

text \<open>
  Claim C9 as stated fails: the loop calls \<open>extractBrowserRequestState\<close> on every non-empty
  value stored under a key that contains the request-state name, outside any
  \<^verbatim>\<open>try\<close>. When the host rejects such a value, its error leaves the loop and the call; the
  release of the lock, which comes after the loop, does not run, and the lock held by this
  manager stays.
\<close>

theorem cleanRequestByInteractionType_throws_counterexample:
  "indexOf ''msal.app.request.state.bad'' (REQUEST_STATE demo) \<noteq> -1
   \<and> storage_getItem (temporaryCacheStorage demo) media_garbage_state
       ''msal.app.request.state.bad'' = Some ''garbage''
   \<and> extractBrowserRequestState demo ''garbage'' = Inl (ClientAuthError invalidState)
   \<and> getInteractionInProgress demo media_garbage_state = Some (clientId demo)
   \<and> cleanRequestByInteractionType demo ''redirect'' media_garbage_state
       = (Inl (ClientAuthError invalidState), media_garbage_state)
   \<and> storage_getItem (temporaryCacheStorage demo)
       (snd (cleanRequestByInteractionType demo ''redirect'' media_garbage_state))
       (interactionStatusKey demo) = Some ''app''"
proof -
  have sub: "indexOf ''msal.app.request.state.bad'' ''request.state'' \<noteq> -1"
    by (simp add: Let_def)
  have here: "storage_getItem SessionM media_garbage_state ''msal.app.request.state.bad''
                = Some ''garbage''"
    by (simp add: storage_getItem_def media_garbage_state_def)
  have bad: "demo_extractBrowserRequestState ''garbage'' = Inl (ClientAuthError invalidState)"
    by (simp add: demo_extractBrowserRequestState_def)
  have lock: "getInteractionInProgress demo media_garbage_state = Some ''app''"
    by (simp add: getInteractionInProgress_def getTemporaryCache_def storage_getItem_def
        media_garbage_state_def Let_def)
  have keys: "storage_getKeys SessionM media_garbage_state
                = [''msal.app.request.state.bad'', ''msal.interaction.status'']"
    by (simp add: storage_getKeys_def media_garbage_state_def)
  have run: "cleanRequestByInteractionType demo ''redirect'' media_garbage_state
               = (Inl (ClientAuthError invalidState), media_garbage_state)"
    by (simp add: cleanRequestByInteractionType_def keys sub here bad Let_def)
  have kept: "storage_getItem SessionM media_garbage_state ''msal.interaction.status'' = Some ''app''"
    by (simp add: storage_getItem_def media_garbage_state_def)
  show ?thesis
    using sub here bad lock run kept by simp
qed

text \<open>
  Claim C9, amended. When every value stored under a key of the request-state namespace is
  a state blob the host decodes, \<open>cleanRequestByInteractionType\<close> returns without error,
  whatever the number of stored states of the given interaction type. When the lock read
  at the start is this manager's client id, the lock entry has no value in the temporary
  storage at the end, also when no stored state has the given type.
\<close>

theorem cleanRequestByInteractionType_returns:
  assumes "requestStatesDecodable this interactionType s"
  shows "fst (cleanRequestByInteractionType this interactionType s) = Inr ()
         \<and> (getInteractionInProgress this s = Some (clientId this) \<longrightarrow>
              storage_getItem (temporaryCacheStorage this)
                (snd (cleanRequestByInteractionType this interactionType s))
                (interactionStatusKey this) = None)"
proof -
  define body where "body = (\<lambda>key acc.
                if indexOf key (REQUEST_STATE this) = -1 then (Inr (), acc)
                else
                  (let stateValue = storage_getItem (temporaryCacheStorage this) acc key
                   in if \<not> truthy stateValue then (Inr (), acc)
                      else
                        (case extractBrowserRequestState this (the stateValue) of
                           Inl err \<Rightarrow> (Inl err, acc)
                         | Inr parsedState \<Rightarrow>
                             if parsedState = Some interactionType
                             then resetRequestCache this (the stateValue) acc
                             else (Inr (), acc))))"
  define r where "r = forEach body (storage_getKeys (temporaryCacheStorage this) s) s"
  have loop: "fst r = Inr ()" "onlyRemoved this s (snd r)"
    using cleanRequestByInteractionType_loop [OF assms, of "storage_getKeys (temporaryCacheStorage this) s"]
    by (simp_all add: r_def body_def)
  have clean: "cleanRequestByInteractionType this interactionType s
                 = setInteractionInProgress this False (snd r)"
    using loop(1)
    by (cases r) (simp add: cleanRequestByInteractionType_def r_def [symmetric] body_def [symmetric])
  have "storage_getItem (temporaryCacheStorage this)
          (snd (setInteractionInProgress this False (snd r))) (interactionStatusKey this) = None"
    if "getInteractionInProgress this s = Some (clientId this)"
    using onlyRemoved_lock [OF loop(2) that]
    by (auto simp: getItem_setInteractionInProgress_False temporaryMedium_def)
  then show ?thesis
    by (simp add: clean)
qed


text \<open>Two stored states of type \<^verbatim>\<open>redirect\<close> (several matches) and none of type \<^verbatim>\<open>popup\<close>
  (no match), with the lock held by \<open>demo\<close>.\<close>

theorem cleanRequestByInteractionType_returns_witness:
  "requestStatesDecodable demo ''redirect'' media_two_flows
   \<and> requestStatesDecodable demo ''popup'' media_two_flows
   \<and> getInteractionInProgress demo media_two_flows = Some (clientId demo)
   \<and> fst (cleanRequestByInteractionType demo ''redirect'' media_two_flows) = Inr ()
   \<and> storage_getItem SessionM (snd (cleanRequestByInteractionType demo ''redirect'' media_two_flows))
       ''msal.interaction.status'' = None
   \<and> fst (cleanRequestByInteractionType demo ''popup'' media_two_flows) = Inr ()
   \<and> storage_getItem SessionM (snd (cleanRequestByInteractionType demo ''popup'' media_two_flows))
       ''msal.interaction.status'' = None"
proof -
  have dec: "requestStatesDecodable demo t media_two_flows" for t
    by (auto simp: requestStatesDecodable_def storage_getItem_def media_two_flows_def Let_def
        demo_extractBrowserRequestState_def demo_parseRequestState_def split: if_splits)
  have lock: "getInteractionInProgress demo media_two_flows = Some (clientId demo)"
    by (simp add: getInteractionInProgress_def getTemporaryCache_def storage_getItem_def
        media_two_flows_def Let_def)
  show ?thesis
    using dec lock
      cleanRequestByInteractionType_returns [OF dec [of "''redirect''"]]
      cleanRequestByInteractionType_returns [OF dec [of "''popup''"]]
    by simp
qed

end
